theory Spec2Isabelle
  imports Complex_Main
begin

section \<open>Wee-Web-Scraper: strings and file names\<close>

text \<open>
  A Python \<open>str\<close> is modelled as a \<^typ>\<open>string\<close>, one \<^typ>\<open>char\<close> standing for one
  character of the Python string (so \<^const>\<open>length\<close> counts characters, as Python's
  \<open>len\<close> and slicing do). A Python \<open>bytes\<close> value is a list of 8-bit characters too.
\<close>

type_synonym bytes = "char list"

definition ascii_letters :: string where
  "ascii_letters = ''abcdefghijklmnopqrstuvwxyzABCDEFGHIJKLMNOPQRSTUVWXYZ''"

definition digits :: string where
  "digits = ''0123456789''"

text \<open>\<open>s.split(sep, 1)[0]\<close>: the part of \<open>s\<close> before the first \<open>sep\<close>, all of \<open>s\<close> when
  there is none.\<close>

definition split_first :: "char \<Rightarrow> string \<Rightarrow> string" where
  "split_first sep s = takeWhile (\<lambda>c. c \<noteq> sep) s"

text \<open>\<open>sanitize_filename\<close> (lines 28-42). Neither \<open>split\<close> nor \<open>join\<close> can raise, so the
  model returns a plain string.\<close>

definition sanitize_filename :: "string \<Rightarrow> string" where
  "sanitize_filename filename =
     (let filename1 = split_first (CHR ''?'') filename;
          filename2 = split_first (CHR ''#'') filename1
      in map (\<lambda>char. if char \<in> set (ascii_letters @ digits @ ''._-'') then char else CHR ''_'')
           filename2)"

text \<open>\<open>str.startswith\<close>.\<close>

definition startswith :: "string \<Rightarrow> string \<Rightarrow> bool" where
  "startswith s p = (take (length p) s = p)"

text \<open>\<open>os.path.join\<close>, \<open>os.path.basename\<close> and \<open>os.path.dirname\<close> for two components, as
  \<open>posixpath\<close> defines them (the separator is \<open>/\<close>):
  \<^item> \<open>join(a, b)\<close> is \<open>b\<close> when \<open>b\<close> starts with \<open>/\<close>, \<open>a + b\<close> when \<open>a\<close> is empty or ends
    with \<open>/\<close>, and \<open>a + '/' + b\<close> otherwise;
  \<^item> \<open>basename(p)\<close> is what follows the last \<open>/\<close> of \<open>p\<close>;
  \<^item> \<open>dirname(p)\<close> is what precedes it, without trailing slashes unless it is slashes only.\<close>

definition path_join :: "string \<Rightarrow> string \<Rightarrow> string" where
  "path_join a b =
     (if startswith b ''/'' then b
      else if a = [] \<or> last a = CHR ''/'' then a @ b
      else a @ ''/'' @ b)"

definition basename :: "string \<Rightarrow> string" where
  "basename p = rev (takeWhile (\<lambda>c. c \<noteq> CHR ''/'') (rev p))"

definition dirname :: "string \<Rightarrow> string" where
  "dirname p =
     (let head = rev (dropWhile (\<lambda>c. c \<noteq> CHR ''/'') (rev p))
      in if head \<noteq> [] \<and> \<not> list_all (\<lambda>c. c = CHR ''/'') head
         then rev (dropWhile (\<lambda>c. c = CHR ''/'') (rev head))
         else head)"

text \<open>\<open>str(i)\<close> for a Python \<open>int\<close>, as an f-string prints it.\<close>

fun nat_digits :: "nat \<Rightarrow> string" where
  "nat_digits n =
     (if n < 10 then [digits ! n] else nat_digits (n div 10) @ [digits ! (n mod 10)])"

declare nat_digits.simps [simp del]

definition str_int :: "int \<Rightarrow> string" where
  "str_int i = (if i < 0 then ''-'' @ nat_digits (nat (- i)) else nat_digits (nat i))"

text \<open>\<open>str.isspace\<close> for one character (the characters below 256 that Python counts as
  white space), and \<open>str.strip()\<close>.\<close>

definition isspace :: "char \<Rightarrow> bool" where
  "isspace c =
     (let n = (of_char c :: nat)
      in (9 \<le> n \<and> n \<le> 13) \<or> (28 \<le> n \<and> n \<le> 32) \<or> n = 133 \<or> n = 160)"

definition strip :: "string \<Rightarrow> string" where
  "strip s = rev (dropWhile isspace (rev (dropWhile isspace s)))"

section \<open>The parsed page\<close>

text \<open>
  The tree \<open>BeautifulSoup(content, "html.parser")\<close> returns: an element has a name, a
  dictionary of attributes (kept as an association list with one entry per name) and
  children; a text node holds a string. A soup is the list of the document's top nodes.
\<close>

datatype node = Element string "(string \<times> string) list" "node list" | Text string

fun tag_of :: "node \<Rightarrow> string" where
  "tag_of (Element t a cs) = t"
| "tag_of (Text s) = []"

fun attrs_of :: "node \<Rightarrow> (string \<times> string) list" where
  "attrs_of (Element t a cs) = a"
| "attrs_of (Text s) = []"

text \<open>The elements of a subtree in document order, the node itself first.\<close>

fun elems :: "node \<Rightarrow> node list" where
  "elems (Text s) = []"
| "elems (Element t a cs) = Element t a cs # concat (map elems cs)"

text \<open>\<open>soup.find_all(tag)\<close>: every element of that name, in document order.\<close>

definition find_all :: "string \<Rightarrow> node list \<Rightarrow> node list" where
  "find_all tag soup = filter (\<lambda>e. tag_of e = tag) (concat (map elems soup))"

text \<open>\<open>element.has_attr(k)\<close> and \<open>element[k]\<close> are \<open>map_of (attrs_of element) k\<close>;
  \<open>element[k] = v\<close> replaces the value of an attribute the element has.\<close>

fun set_attr :: "string \<Rightarrow> string \<Rightarrow> (string \<times> string) list \<Rightarrow> (string \<times> string) list" where
  "set_attr k v [] = [(k, v)]"
| "set_attr k v (kv # kvs) = (if fst kv = k then (k, v) # kvs else kv # set_attr k v kvs)"

text \<open>\<open>tag.string\<close>: the text of an element whose only child is a text node, or whose only
  child is an element with such a \<open>string\<close>; \<open>None\<close> otherwise.\<close>

fun node_string :: "node \<Rightarrow> string option" where
  "node_string (Text s) = Some s"
| "node_string (Element t a [c]) = node_string c"
| "node_string (Element t a cs) = None"

text \<open>\<open>soup.title.string.strip()\<close> (line 153): \<open>soup.title\<close> is the first \<open>title\<close>
  element or \<open>None\<close>, and an attribute access on \<open>None\<close> raises \<open>AttributeError\<close>,
  modelled as \<open>None\<close> here.\<close>

definition page_title :: "node list \<Rightarrow> string option" where
  "page_title soup =
     (case find_all ''title'' soup of
        [] \<Rightarrow> None
      | e # _ \<Rightarrow> (case node_string e of None \<Rightarrow> None | Some s \<Rightarrow> Some (strip s)))"

text \<open>The value of a \<open>rel\<close> attribute is a list of white-space separated tokens, and
  \<open>find_all("link", rel="stylesheet")\<close> keeps the \<open>link\<close> elements one of whose tokens is
  \<open>stylesheet\<close>.\<close>

definition tokens :: "string \<Rightarrow> string list" where
  "tokens s =
     filter (\<lambda>w. w \<noteq> [])
       (foldr (\<lambda>c acc. if isspace c then [] # acc
                        else (case acc of [] \<Rightarrow> [[c]] | w # ws \<Rightarrow> (c # w) # ws)) s [])"

definition is_stylesheet_link :: "string \<Rightarrow> (string \<times> string) list \<Rightarrow> bool" where
  "is_stylesheet_link t a =
     (t = ''link'' \<and> (case map_of a ''rel'' of None \<Rightarrow> False | Some v \<Rightarrow> ''stylesheet'' \<in> set (tokens v)))"

section \<open>The reference rewriter's tree transformation\<close>

text \<open>The body of each loop of \<open>modify_html_content\<close> (lines 109-121): when the element
  has the attribute, its value becomes \<open>os.path.join(subdir, sanitize_filename(value))\<close>.\<close>

definition localize :: "string \<Rightarrow> string \<Rightarrow> (string \<times> string) list \<Rightarrow> (string \<times> string) list" where
  "localize attribute subdir a =
     (case map_of a attribute of
        None \<Rightarrow> a
      | Some v \<Rightarrow> set_attr attribute (path_join subdir (sanitize_filename v)) a)"

text \<open>One loop: every element the selection finds gets its attributes changed in place.\<close>

fun for_each :: "(string \<Rightarrow> (string \<times> string) list \<Rightarrow> bool) \<Rightarrow>
    ((string \<times> string) list \<Rightarrow> (string \<times> string) list) \<Rightarrow> node \<Rightarrow> node" where
  "for_each sel f (Text s) = Text s"
| "for_each sel f (Element t a cs) =
     Element t (if sel t a then f a else a) (map (for_each sel f) cs)"

text \<open>The three loops of lines 109-121, in the source's order: images, scripts, style
  sheets.\<close>

definition rewrite_soup :: "node list \<Rightarrow> node list" where
  "rewrite_soup soup =
     (let soup1 = map (for_each (\<lambda>t a. t = ''img'') (localize ''src'' ''images'')) soup;
          soup2 = map (for_each (\<lambda>t a. t = ''script'') (localize ''src'' ''js'')) soup1;
          soup3 = map (for_each is_stylesheet_link (localize ''href'' ''css'')) soup2
      in soup3)"

text \<open>What the three loops together do to the attributes of one element, by its name:
  the summary the theorems below are stated with (\<open>three_loops_on_element\<close> proves it
  of the loops).\<close>

definition rewritten_attrs :: "string \<Rightarrow> (string \<times> string) list \<Rightarrow> (string \<times> string) list" where
  "rewritten_attrs t a =
     (if t = ''img'' then localize ''src'' ''images'' a
      else if t = ''script'' then localize ''src'' ''js'' a
      else if is_stylesheet_link t a then localize ''href'' ''css'' a
      else a)"

section \<open>The environment and the world\<close>

text \<open>
  What the program does not define is a parameter of the model, an \<open>env\<close>:
  \<^item> \<open>urlparse url\<close>: the scheme and the network location of \<open>urllib.parse.urlparse(url)\<close>,
    \<open>None\<close> when it raises \<open>ValueError\<close>; \<open>urljoin\<close> likewise;
  \<^item> \<open>http_get n url\<close>: what \<open>requests.get(url, timeout=4)\<close> followed by
    \<open>raise_for_status()\<close> gives when it is the \<open>n\<close>-th interaction of the run with its
    surroundings: the body, or the message of the \<open>RequestException\<close>;
  \<^item> \<open>parse_html\<close> and \<open>prettify\<close>: the HTML parser, and the serializer
    \<open>soup.prettify(formatter="html5")\<close> together with the UTF-8 encoding of the file it is
    written to;
  \<^item> \<open>clock n\<close>: what \<open>time.time()\<close> returns as the \<open>n\<close>-th interaction (seconds, taken as
    real numbers); \<open>timestamp\<close>: the formatted \<open>datetime.now()\<close> of line 22;
  \<^item> \<open>mkdir_fails n path\<close>: \<open>os.makedirs(path, exist_ok=True)\<close> raises \<open>OSError\<close>;
    \<open>write_fails n path\<close>: opening \<open>path\<close> for writing raises \<open>IOError\<close> with that message;
  \<^item> \<open>abspath\<close>: \<open>os.path.abspath\<close>.
  The world is the file system's files, the number of interactions so far, and a trace
  of what the run did. The trace entry \<open>Called\<close> is a ghost: it records a call of
  \<open>download_file\<close> with its arguments, the attempt the specification calls an outcome.
\<close>

datatype exn = ValueError | AttributeError | OSError

datatype event =
    Called string string string
  | Get string
  | Makedirs string
  | Wrote string bytes
  | Print string

record world =
  files :: "string \<rightharpoonup> bytes"
  trace :: "event list"
  ticks :: nat

record env =
  urlparse :: "string \<Rightarrow> (string \<times> string) option"
  urljoin :: "string \<Rightarrow> string \<Rightarrow> string option"
  http_get :: "nat \<Rightarrow> string \<Rightarrow> string + bytes"
  parse_html :: "bytes \<Rightarrow> node list"
  prettify :: "node list \<Rightarrow> bytes"
  clock :: "nat \<Rightarrow> real"
  timestamp :: string
  mkdir_fails :: "nat \<Rightarrow> string \<Rightarrow> bool"
  write_fails :: "nat \<Rightarrow> string \<Rightarrow> string option"
  abspath :: "string \<Rightarrow> string"

definition emit :: "event \<Rightarrow> world \<Rightarrow> world" where
  "emit e w = w\<lparr>trace := trace w @ [e]\<rparr>"

definition tick :: "world \<Rightarrow> world" where
  "tick w = w\<lparr>ticks := Suc (ticks w)\<rparr>"

definition print_line :: "string \<Rightarrow> world \<Rightarrow> world" where
  "print_line s w = emit (Print s) w"

definition time_time :: "env \<Rightarrow> world \<Rightarrow> real \<times> world" where
  "time_time E w = (clock E (ticks w), tick w)"

definition requests_get :: "env \<Rightarrow> string \<Rightarrow> world \<Rightarrow> (string + bytes) \<times> world" where
  "requests_get E url w = (http_get E (ticks w) url, tick (emit (Get url) w))"

definition makedirs :: "env \<Rightarrow> string \<Rightarrow> world \<Rightarrow> bool \<times> world" where
  "makedirs E path w =
     (if mkdir_fails E (ticks w) path then (False, tick w)
      else (True, tick (emit (Makedirs path) w)))"

definition write_file :: "env \<Rightarrow> string \<Rightarrow> bytes \<Rightarrow> world \<Rightarrow> string option \<times> world" where
  "write_file E path content w =
     (case write_fails E (ticks w) path of
        Some msg \<Rightarrow> (Some msg, tick w)
      | None \<Rightarrow> (None, tick (emit (Wrote path content) (w\<lparr>files := (files w)(path \<mapsto> content)\<rparr>))))"

text \<open>What a trace holds: the calls of \<open>download_file\<close>, the URLs requested, in order.\<close>

fun calls :: "event list \<Rightarrow> (string \<times> string \<times> string) list" where
  "calls [] = []"
| "calls (Called url filename directory # es) = (url, filename, directory) # calls es"
| "calls (e # es) = calls es"

fun requests :: "event list \<Rightarrow> string list" where
  "requests [] = []"
| "requests (Get url # es) = url # requests es"
| "requests (e # es) = requests es"

fun writes :: "event list \<Rightarrow> (string \<times> bytes) list" where
  "writes [] = []"
| "writes (Wrote path content # es) = (path, content) # writes es"
| "writes (e # es) = writes es"

section \<open>The program\<close>

text \<open>\<open>create_directory\<close> (lines 12-25). A failing \<open>os.makedirs\<close> is not caught.\<close>

definition create_directory :: "env \<Rightarrow> string \<Rightarrow> world \<Rightarrow> (exn + string) \<times> world" where
  "create_directory E title w =
     (let directory_name = timestamp E @ ''_'' @ sanitize_filename (take 20 title)
      in case makedirs E directory_name w of
           (False, w1) \<Rightarrow> (Inl OSError, w1)
         | (True, w1) \<Rightarrow> (Inr directory_name, w1))"

text \<open>\<open>is_valid_url\<close> (lines 45-56).\<close>

definition is_valid_url :: "env \<Rightarrow> string \<Rightarrow> exn + bool" where
  "is_valid_url E url =
     (case urlparse E url of
        None \<Rightarrow> Inl ValueError
      | Some (scheme, netloc) \<Rightarrow> Inr (netloc \<noteq> [] \<and> scheme \<noteq> []))"

text \<open>\<open>download_file\<close> (lines 59-94). It returns the empty string on each of its three
  handled failures and the absolute path of the file otherwise; \<open>os.makedirs\<close> of line
  85 stands outside the \<open>try\<close> blocks, so its failure leaves the function as an exception.\<close>

definition download_file :: "env \<Rightarrow> string \<Rightarrow> string \<Rightarrow> string \<Rightarrow> world \<Rightarrow> (exn + string) \<times> world" where
  "download_file E url filename directory w0 =
     (let w = emit (Called url filename directory) w0
      in case is_valid_url E url of
           Inl e \<Rightarrow> (Inl e, w)
         | Inr valid \<Rightarrow>
             if \<not> valid then (Inr [], print_line (''Skipping invalid URL: '' @ url) w)
             else
               (case requests_get E url w of
                  (Inl msg, w1) \<Rightarrow>
                    (Inr [], print_line (''Error: '' @ msg)
                               (print_line (''Failed to download file: '' @ filename) w1))
                | (Inr content, w1) \<Rightarrow>
                    (let sanitized_filename = sanitize_filename filename;
                         file_path = path_join directory sanitized_filename
                     in case makedirs E (dirname file_path) w1 of
                          (False, w2) \<Rightarrow> (Inl OSError, w2)
                        | (True, w2) \<Rightarrow>
                            (case write_file E file_path content w2 of
                               (Some msg, w3) \<Rightarrow>
                                 (Inr [], print_line (''Error: '' @ msg)
                                            (print_line (''Failed to save file: '' @ file_path) w3))
                             | (None, w3) \<Rightarrow> (Inr (abspath E file_path), w3)))))"

text \<open>\<open>modify_html_content\<close> (lines 97-125): parse the content again, run the three
  loops, write the serialization to \<open>index.html\<close>. The \<open>open\<close> is not guarded.\<close>

definition modify_html_content :: "env \<Rightarrow> bytes \<Rightarrow> string \<Rightarrow> string \<Rightarrow> world \<Rightarrow> (exn + unit) \<times> world" where
  "modify_html_content E content directory_name base_url w =
     (let soup = rewrite_soup (parse_html E content);
          modified_content = prettify E soup
      in case write_file E (path_join directory_name ''index.html'') modified_content w of
           (Some msg, w1) \<Rightarrow> (Inl OSError, w1)
         | (None, w1) \<Rightarrow> (Inr (), w1))"

text \<open>The dictionary \<open>subdirectories\<close> of lines 157-164, in insertion order, and the list
  the outer loop of line 175 runs over.\<close>

definition subdirectories :: "string \<Rightarrow> (string \<times> string) list" where
  "subdirectories directory_name =
     [(''images'', path_join directory_name ''images''),
      (''audio'', path_join directory_name ''audio''),
      (''pdfs'', path_join directory_name ''pdfs''),
      (''text'', path_join directory_name ''text''),
      (''js'', path_join directory_name ''js''),
      (''css'', path_join directory_name ''css'')]"

definition categories :: "string \<Rightarrow> (string \<times> string \<times> string) list" where
  "categories directory_name =
     [(''img'', ''src'', path_join directory_name ''images''),
      (''audio'', ''src'', path_join directory_name ''audio''),
      (''a'', ''href'', path_join directory_name ''pdfs''),
      (''a'', ''href'', path_join directory_name ''text''),
      (''script'', ''src'', path_join directory_name ''js'')]"

text \<open>Lines 166-168: one \<open>os.makedirs\<close> per subdirectory, the first failure raising.\<close>

fun makedirs_all :: "env \<Rightarrow> string list \<Rightarrow> world \<Rightarrow> bool \<times> world" where
  "makedirs_all E [] w = (True, w)"
| "makedirs_all E (p # ps) w =
     (case makedirs E p w of
        (False, w1) \<Rightarrow> (False, w1)
      | (True, w1) \<Rightarrow> makedirs_all E ps w1)"

text \<open>
  The two nested loops of lines 175-189 visit, for each category in turn, the elements
  of its tag that have its attribute, in document order. \<open>references\<close> is that sequence:
  the attribute's value with the category's directory.
\<close>

definition tag_references :: "node list \<Rightarrow> string \<times> string \<times> string \<Rightarrow> (string \<times> string) list" where
  "tag_references soup = (\<lambda>(tag, attribute, subdir).
     concat (map (\<lambda>element. case map_of (attrs_of element) attribute of
                                None \<Rightarrow> []
                              | Some v \<Rightarrow> [(v, subdir)])
                 (find_all tag soup)))"

definition references :: "node list \<Rightarrow> string \<Rightarrow> (string \<times> string) list" where
  "references soup directory_name = concat (map (tag_references soup) (categories directory_name))"

text \<open>Lines 184-186: a value that starts with \<open>..\<close> is joined to the base URL.\<close>

definition resolve :: "env \<Rightarrow> string \<Rightarrow> string \<Rightarrow> string option" where
  "resolve E base_url content_url =
     (if startswith content_url ''..'' then urljoin E base_url content_url else Some content_url)"

text \<open>Lines 184-189, the work on one reference.\<close>

definition fetch_reference :: "env \<Rightarrow> string \<Rightarrow> string \<times> string \<Rightarrow> world \<Rightarrow> (exn + string) \<times> world" where
  "fetch_reference E base_url = (\<lambda>(value, subdir) w.
     case resolve E base_url value of
       None \<Rightarrow> (Inl ValueError, w)
     | Some content_url \<Rightarrow> download_file E content_url (basename content_url) subdir w)"

text \<open>The call of \<open>download_file\<close> that line 189 makes for a reference: the resolved
  URL, its base name, the category's directory (\<open>None\<close> when resolving raises).\<close>

definition call_of :: "env \<Rightarrow> string \<Rightarrow> string \<times> string \<Rightarrow> (string \<times> string \<times> string) option" where
  "call_of E base_url = (\<lambda>(value, subdir).
     map_option (\<lambda>content_url. (content_url, basename content_url, subdir))
       (resolve E base_url value))"

text \<open>
  The loop over the references (lines 175-195): fetch one, then read the clock; when the
  time elapsed since \<open>start_time\<close> has reached the limit, print the notice and return
  from \<open>parse_website\<close>. The result is \<open>True\<close> when the loop ended that way (the
  specification's \<open>truncated\<close>) and \<open>False\<close> when every reference was visited.
\<close>

fun acquire :: "env \<Rightarrow> string \<Rightarrow> real \<Rightarrow> int \<Rightarrow> (string \<times> string) list \<Rightarrow> world \<Rightarrow> (exn + bool) \<times> world" where
  "acquire E base_url start_time time_limit [] w = (Inr False, w)"
| "acquire E base_url start_time time_limit (r # rs) w =
     (case fetch_reference E base_url r w of
        (Inl e, w1) \<Rightarrow> (Inl e, w1)
      | (Inr path, w1) \<Rightarrow>
          (case time_time E w1 of
             (now, w2) \<Rightarrow>
               if now - start_time \<ge> of_int time_limit
               then (Inr True,
                     print_line (''Time limit exceeded ('' @ str_int time_limit
                                   @ ''s). Stopping further downloads.'') w2)
               else acquire E base_url start_time time_limit rs w2))"

text \<open>How a run of \<open>parse_website\<close> that raises nothing ends: at the \<open>return\<close> of line
  149, at the \<open>return\<close> of line 195, or after line 200.\<close>

datatype finish = RootFetchFailed | Truncated | Completed

text \<open>\<open>parse_website\<close> (lines 128-200).\<close>

definition parse_website :: "env \<Rightarrow> string \<Rightarrow> int \<Rightarrow> world \<Rightarrow> (exn + finish) \<times> world" where
  "parse_website E url time_limit w =
     (case time_time E w of
        (start_time, w1) \<Rightarrow>
     (case urlparse E url of
        None \<Rightarrow> (Inl ValueError, w1)
      | Some (scheme, netloc) \<Rightarrow>
     (let base_url = scheme @ ''://'' @ netloc
      in case requests_get E url w1 of
        (Inl msg, w2) \<Rightarrow>
          (Inr RootFetchFailed,
           print_line (''Error: '' @ msg) (print_line (''Failed to access website: '' @ url) w2))
      | (Inr content, w2) \<Rightarrow>
     (let soup = parse_html E content
      in case page_title soup of
        None \<Rightarrow> (Inl AttributeError, w2)
      | Some title \<Rightarrow>
     (case create_directory E title w2 of
        (Inl e, w3) \<Rightarrow> (Inl e, w3)
      | (Inr directory_name, w3) \<Rightarrow>
     (case makedirs_all E (map snd (subdirectories directory_name)) w3 of
        (False, w4) \<Rightarrow> (Inl OSError, w4)
      | (True, w4) \<Rightarrow>
     (case write_file E (path_join directory_name ''index.html'') content w4 of
        (Some msg, w5) \<Rightarrow> (Inl OSError, w5)
      | (None, w5) \<Rightarrow>
     (case acquire E base_url start_time time_limit (references soup directory_name) w5 of
        (Inl e, w6) \<Rightarrow> (Inl e, w6)
      | (Inr True, w6) \<Rightarrow> (Inr Truncated, w6)
      | (Inr False, w6) \<Rightarrow>
     (case modify_html_content E content directory_name base_url w6 of
        (Inl e, w7) \<Rightarrow> (Inl e, w7)
      | (Inr u, w7) \<Rightarrow>
          (Inr Completed, print_line ''Website parsing and download completed.'' w7))))))))))"

section \<open>A concrete environment\<close>

text \<open>
  An environment to run the program in: a small web site at \<open>example.test\<close>, a file
  system that refuses nothing, and a clock that advances a tenth of a second with every
  interaction. Its URL functions follow \<open>urllib.parse\<close> of Python 3.12 on the URLs
  the theorems below evaluate them at, which are made of printable ASCII characters and
  have no host in a pair of brackets: the scheme is what precedes the first colon when
  that is a letter followed by letters, digits, \<open>+\<close>, \<open>-\<close> and \<open>.\<close>; the network location
  is what follows \<open>//\<close> up to the next \<open>/\<close>, \<open>?\<close> or \<open>#\<close>; a network location with one
  bracket of \<open>[\<close>, \<open>]\<close> and not the other raises \<open>ValueError\<close>. Outside these URLs
  (white space or control characters, which \<open>urlsplit\<close> strips, characters beyond ASCII,
  a host in brackets, which \<open>urlsplit\<close> checks to be an IP literal) \<open>demo_urlparse\<close> is
  not claimed to follow the library.
\<close>

definition ascii_lower :: "char \<Rightarrow> char" where
  "ascii_lower c = (case map_of (zip (drop 26 ascii_letters) (take 26 ascii_letters)) c of
                      None \<Rightarrow> c | Some l \<Rightarrow> l)"

definition demo_urlparse :: "string \<Rightarrow> (string \<times> string) option" where
  "demo_urlparse url =
     (let head = takeWhile (\<lambda>c. c \<noteq> CHR '':'') url;
          has_scheme = (length head < length url \<and> head \<noteq> [] \<and> hd head \<in> set ascii_letters
                        \<and> list_all (\<lambda>c. c \<in> set (ascii_letters @ digits @ ''+-.'')) head);
          scheme = (if has_scheme then map ascii_lower head else []);
          rest = (if has_scheme then drop (Suc (length head)) url else url);
          netloc = (if startswith rest ''//''
                    then takeWhile (\<lambda>c. c \<notin> set ''/?#'') (drop 2 rest) else [])
      in if (CHR ''['' \<in> set netloc) \<noteq> (CHR '']'' \<in> set netloc) then None
         else Some (scheme, netloc))"

text \<open>\<open>urljoin\<close> for the arguments the theorems below evaluate it at: the base
  \<open>http://example.test\<close> and a reference that is a non-empty relative path starting
  with \<open>..\<close>, without a colon, with a non-empty query perhaps. The path's segments are
  resolved against the root, \<open>..\<close> dropping the segment before it. For other
  arguments (an empty reference, one with a scheme or starting with \<open>//\<close>, a base with
  a path, parameters after \<open>;\<close>) \<open>demo_urljoin\<close> is not claimed to follow the library.\<close>

fun split_on :: "char \<Rightarrow> string \<Rightarrow> string list" where
  "split_on sep [] = [[]]"
| "split_on sep (c # cs) =
     (if c = sep then [] # split_on sep cs
      else (case split_on sep cs of [] \<Rightarrow> [[c]] | w # ws \<Rightarrow> (c # w) # ws))"

fun resolve_segments :: "string list \<Rightarrow> string list \<Rightarrow> string list" where
  "resolve_segments acc [] = acc"
| "resolve_segments acc (seg # segs) =
     (if seg = ''..'' then resolve_segments (butlast acc) segs
      else if seg = ''.'' then resolve_segments acc segs
      else resolve_segments (acc @ [seg]) segs)"

fun join_with :: "string \<Rightarrow> string list \<Rightarrow> string" where
  "join_with sep [] = []"
| "join_with sep [w] = w"
| "join_with sep (w # ws) = w @ sep @ join_with sep ws"

definition demo_urljoin :: "string \<Rightarrow> string \<Rightarrow> string option" where
  "demo_urljoin base url =
     (let path = takeWhile (\<lambda>c. c \<notin> set ''?#'') url;
          tail = dropWhile (\<lambda>c. c \<notin> set ''?#'') url;
          parts = split_on (CHR ''/'') path;
          segments = [] # filter (\<lambda>w. w \<noteq> []) (butlast parts) @ [last parts];
          resolved = resolve_segments [] segments
                     @ (if last segments \<in> {''.'', ''..''} then [[]] else [])
      in Some (base @ ''/'' @ join_with ''/'' resolved @ tail))"

text \<open>The site: two pages and three assets; every other URL is answered with 404.\<close>

definition demo_html :: bytes where
  \<open>demo_html = ''<html><head><title>Demo Page Title</title></head><body><img src="a.png"></body></html>''\<close>

definition demo_soup :: "node list" where
  "demo_soup =
     [Element ''html'' []
        [Element ''head'' [] [Element ''title'' [] [Text ''Demo Page Title'']],
         Element ''body'' [] [Element ''img'' [(''src'', ''a.png'')] []]]]"

definition gallery_html :: bytes where
  \<open>gallery_html = ''<html><head><title>Gallery</title><link rel="stylesheet" href="http://example.test/s.css"></head><body><img src="http://example.test/img/a.png"><audio src="http://example.test/s.mp3"></audio><a href="http://example.test/doc.pdf">doc</a></body></html>''\<close>

definition gallery_soup :: "node list" where
  "gallery_soup =
     [Element ''html'' []
        [Element ''head'' []
           [Element ''title'' [] [Text ''Gallery''],
            Element ''link'' [(''rel'', ''stylesheet''), (''href'', ''http://example.test/s.css'')] []],
         Element ''body'' []
           [Element ''img'' [(''src'', ''http://example.test/img/a.png'')] [],
            Element ''audio'' [(''src'', ''http://example.test/s.mp3'')] [],
            Element ''a'' [(''href'', ''http://example.test/doc.pdf'')] [Text ''doc'']]]]"

definition demo_http :: "nat \<Rightarrow> string \<Rightarrow> string + bytes" where
  "demo_http n url =
     (if url = ''http://example.test/'' then Inr demo_html
      else if url = ''http://example.test/gallery'' then Inr gallery_html
      else if url = ''http://example.test/a.png'' then Inr [CHR 0x01, CHR 0x02, CHR 0x03]
      else if url = ''http://example.test/img/a.png'' then Inr [CHR 0x01, CHR 0x02, CHR 0x03]
      else if url = ''http://example.test/doc.pdf'' then Inr ''%PDF''
      else if url = ''http://example.test/s.mp3'' then Inr ''ID3''
      else Inl ''404 Client Error'')"

definition demo_parse :: "bytes \<Rightarrow> node list" where
  "demo_parse content =
     (if content = gallery_html then gallery_soup
      else if content = demo_html then demo_soup
      else [Text content])"

text \<open>A serializer in the manner of \<open>prettify\<close>: one tag or text to a line, indented by
  its depth, the attributes of a tag sorted by name (as the formatter sorts them, by
  code point); \<open>img\<close> and \<open>link\<close> have no closing tag.\<close>

fun str_less :: "string \<Rightarrow> string \<Rightarrow> bool" where
  "str_less [] [] = False"
| "str_less [] (d # ds) = True"
| "str_less (c # cs) [] = False"
| "str_less (c # cs) (d # ds) =
     ((of_char c :: nat) < of_char d \<or> (c = d \<and> str_less cs ds))"

fun insert_attr :: "string \<times> string \<Rightarrow> (string \<times> string) list \<Rightarrow> (string \<times> string) list" where
  "insert_attr kv [] = [kv]"
| "insert_attr kv (kv' # kvs) =
     (if str_less (fst kv') (fst kv) then kv' # insert_attr kv kvs else kv # kv' # kvs)"

definition sorted_attrs :: "(string \<times> string) list \<Rightarrow> (string \<times> string) list" where
  "sorted_attrs a = foldr insert_attr a []"

fun render :: "nat \<Rightarrow> node \<Rightarrow> string" where
  \<open>render d (Text s) = replicate d (CHR '' '') @ strip s @ [CHR 0x0A]\<close>
| \<open>render d (Element t a cs) =
     replicate d (CHR '' '') @ ''<'' @ t
       @ concat (map (\<lambda>kv. '' '' @ fst kv @ ''="'' @ snd kv @ ''"'') (sorted_attrs a)) @ ''>'' @ [CHR 0x0A]
       @ concat (map (render (Suc d)) cs)
       @ (if t \<in> {''img'', ''link''} then []
          else replicate d (CHR '' '') @ ''</'' @ t @ ''>'' @ [CHR 0x0A])\<close>

definition demo_prettify :: "node list \<Rightarrow> bytes" where
  "demo_prettify soup = concat (map (render 0) soup)"

definition demo :: env where
  "demo = \<lparr> urlparse = demo_urlparse, urljoin = demo_urljoin, http_get = demo_http,
            parse_html = demo_parse, prettify = demo_prettify,
            clock = (\<lambda>n. real n / 10), timestamp = ''20240102_030405'',
            mkdir_fails = (\<lambda>n path. False), write_fails = (\<lambda>n path. None),
            abspath = (\<lambda>path. ''/home/user/'' @ path) \<rparr>"

definition fresh :: world where
  "fresh = \<lparr> files = Map.empty, trace = [], ticks = 0 \<rparr>"

section \<open>The filename sanitizer\<close>

lemma takeWhile_twice:
  "takeWhile P (takeWhile Q xs) = takeWhile (\<lambda>x. Q x \<and> P x) xs"
  by (induction xs) auto

lemma sanitize_as_one_cut:
  "sanitize_filename s =
     map (\<lambda>c. if c \<in> set (ascii_letters @ digits @ ''._-'') then c else CHR ''_'')
       (takeWhile (\<lambda>c. c \<noteq> CHR ''?'' \<and> c \<noteq> CHR ''#'') s)"
  by (simp add: sanitize_filename_def split_first_def takeWhile_twice)

lemma sanitize_safe_chars:
  "c \<in> set (sanitize_filename s) \<Longrightarrow> c \<in> set (ascii_letters @ digits @ ''._-'')"
  unfolding sanitize_as_one_cut
  by (auto simp: ascii_letters_def digits_def)

lemma safe_chars_no_cut:
  "c \<in> set (ascii_letters @ digits @ ''._-'') \<Longrightarrow> c \<noteq> CHR ''?'' \<and> c \<noteq> CHR ''#''"
  by (auto simp: ascii_letters_def digits_def)

lemma sanitize_fixes_safe:
  assumes "\<And>c. c \<in> set s \<Longrightarrow> c \<in> set (ascii_letters @ digits @ ''._-'')"
  shows "sanitize_filename s = s"
proof -
  have "takeWhile (\<lambda>c. c \<noteq> CHR ''?'' \<and> c \<noteq> CHR ''#'') s = s"
    using assms safe_chars_no_cut by (intro takeWhile_eq_all_conv [THEN iffD2]) blast
  moreover have "map (\<lambda>c. if c \<in> set (ascii_letters @ digits @ ''._-'') then c else CHR ''_'') s = s"
    using assms by (intro map_idI) simp
  ultimately show ?thesis
    by (simp only: sanitize_as_one_cut)
qed

lemma sanitize_idem: "sanitize_filename (sanitize_filename s) = sanitize_filename s"
  by (rule sanitize_fixes_safe) (rule sanitize_safe_chars)

text \<open>
  C9. \<open>sanitize_filename\<close> is a total function (it has no failing branch): for every
  string its result holds only characters of A-Z, a-z, 0-9, \<open>.\<close>, \<open>_\<close>, \<open>-\<close>; it is the
  character-wise replacement of the part of the input before the first \<open>?\<close> or \<open>#\<close>;
  and sanitizing twice gives what sanitizing once gives.
\<close>

theorem sanitize_total_idempotent:
  "list_all (\<lambda>c. c \<in> set (ascii_letters @ digits @ ''._-'')) (sanitize_filename s)
   \<and> sanitize_filename s =
       map (\<lambda>c. if c \<in> set (ascii_letters @ digits @ ''._-'') then c else CHR ''_'')
         (takeWhile (\<lambda>c. c \<noteq> CHR ''?'' \<and> c \<noteq> CHR ''#'') s)
   \<and> length (sanitize_filename s) = length (takeWhile (\<lambda>c. c \<noteq> CHR ''?'' \<and> c \<noteq> CHR ''#'') s)
   \<and> sanitize_filename (sanitize_filename s) = sanitize_filename s"
proof (intro conjI)
  show "list_all (\<lambda>c. c \<in> set (ascii_letters @ digits @ ''._-'')) (sanitize_filename s)"
    using sanitize_safe_chars by (simp add: list_all_iff)
  show "sanitize_filename s =
       map (\<lambda>c. if c \<in> set (ascii_letters @ digits @ ''._-'') then c else CHR ''_'')
         (takeWhile (\<lambda>c. c \<noteq> CHR ''?'' \<and> c \<noteq> CHR ''#'') s)"
    by (rule sanitize_as_one_cut)
  then show "length (sanitize_filename s) = length (takeWhile (\<lambda>c. c \<noteq> CHR ''?'' \<and> c \<noteq> CHR ''#'') s)"
    by simp
  show "sanitize_filename (sanitize_filename s) = sanitize_filename s"
    by (rule sanitize_idem)
qed

theorem sanitize_total_idempotent_witness:
  "sanitize_filename ''a b.png?v=1#top'' = ''a_b.png''
   \<and> sanitize_filename (sanitize_filename ''a b.png?v=1#top'') = ''a_b.png''
   \<and> sanitize_filename '''' = ''''
   \<and> sanitize_filename ''@ /:'' = ''____''
   \<and> sanitize_filename (sanitize_filename ''@ /:'') = ''____''
   \<and> list_all (\<lambda>c. c \<in> set (ascii_letters @ digits @ ''._-'')) (sanitize_filename ''@ /:'')"
proof -
  have a: "sanitize_filename ''a b.png?v=1#top'' = ''a_b.png''"
    by (simp add: sanitize_filename_def split_first_def ascii_letters_def digits_def)
  have b: "sanitize_filename ''@ /:'' = ''____''"
    by (simp add: sanitize_filename_def split_first_def ascii_letters_def digits_def)
  have c: "sanitize_filename '''' = ''''"
    by (simp add: sanitize_filename_def split_first_def)
  have "sanitize_filename (sanitize_filename ''a b.png?v=1#top'') = sanitize_filename ''a b.png?v=1#top''"
    using sanitize_total_idempotent [of "''a b.png?v=1#top''"] by blast
  then have "sanitize_filename (sanitize_filename ''a b.png?v=1#top'') = ''a_b.png''"
    by (simp only: a)
  moreover have "sanitize_filename (sanitize_filename ''@ /:'') = sanitize_filename ''@ /:''
    \<and> list_all (\<lambda>c. c \<in> set (ascii_letters @ digits @ ''._-'')) (sanitize_filename ''@ /:'')"
    using sanitize_total_idempotent [of "''@ /:''"] by blast
  then have "sanitize_filename (sanitize_filename ''@ /:'') = ''____''
    \<and> list_all (\<lambda>c. c \<in> set (ascii_letters @ digits @ ''._-'')) (sanitize_filename ''@ /:'')"
    by (simp only: b)
  ultimately show ?thesis
    using a b c by simp
qed

section \<open>Traces\<close>

lemma calls_append [simp]: "calls (xs @ ys) = calls xs @ calls ys"
  by (induction xs rule: calls.induct) auto

lemma requests_append [simp]: "requests (xs @ ys) = requests xs @ requests ys"
  by (induction xs rule: requests.induct) auto

lemma writes_append [simp]: "writes (xs @ ys) = writes xs @ writes ys"
  by (induction xs rule: writes.induct) auto

lemma emit_simps [simp]:
  "trace (emit e w) = trace w @ [e]" "files (emit e w) = files w" "ticks (emit e w) = ticks w"
  by (simp_all add: emit_def)

lemma tick_simps [simp]:
  "trace (tick w) = trace w" "files (tick w) = files w" "ticks (tick w) = Suc (ticks w)"
  by (simp_all add: tick_def)

lemma print_line_simps [simp]:
  "trace (print_line s w) = trace w @ [Print s]" "files (print_line s w) = files w"
  "ticks (print_line s w) = ticks w"
  by (simp_all add: print_line_def)

section \<open>The concrete environment, evaluated\<close>

lemma demo_fields [simp]:
  "urlparse demo = demo_urlparse" "urljoin demo = demo_urljoin" "http_get demo = demo_http"
  "parse_html demo = demo_parse" "prettify demo = demo_prettify"
  "clock demo = (\<lambda>n. real n / 10)" "timestamp demo = ''20240102_030405''"
  "mkdir_fails demo = (\<lambda>n path. False)" "write_fails demo = (\<lambda>n path. None)"
  "abspath demo = (\<lambda>path. ''/home/user/'' @ path)"
  by (simp_all add: demo_def)

lemma demo_urlparse_values:
  "demo_urlparse '''' = Some ([], [])"
  "demo_urlparse ''not a url'' = Some ([], [])"
  "demo_urlparse ''a.png'' = Some ([], [])"
  "demo_urlparse ''http://example.test/'' = Some (''http'', ''example.test'')"
  "demo_urlparse ''http://example.test/gallery'' = Some (''http'', ''example.test'')"
  "demo_urlparse ''http://example.test/img/a.png'' = Some (''http'', ''example.test'')"
  "demo_urlparse ''http://example.test/s.mp3'' = Some (''http'', ''example.test'')"
  "demo_urlparse ''http://example.test/doc.pdf'' = Some (''http'', ''example.test'')"
  by (simp_all add: demo_urlparse_def startswith_def ascii_letters_def digits_def ascii_lower_def)

lemma demo_urljoin_values:
  "demo_urljoin ''http://example.test'' ''../a.png'' = Some ''http://example.test/a.png''"
  "demo_urljoin ''http://example.test'' ''../../x/./b.png?q=1'' = Some ''http://example.test/x/b.png?q=1''"
  "demo_urljoin ''http://example.test'' ''..'' = Some ''http://example.test/''"
  by (simp_all add: demo_urljoin_def)

lemma pages_differ: "demo_html \<noteq> gallery_html"
  by (simp add: demo_html_def gallery_html_def)

lemma demo_parse_values [simp]:
  "demo_parse demo_html = demo_soup" "demo_parse gallery_html = gallery_soup"
  using pages_differ by (simp_all add: demo_parse_def)

lemma demo_http_values [simp]:
  "demo_http n ''http://example.test/'' = Inr demo_html"
  "demo_http n ''http://example.test/gallery'' = Inr gallery_html"
  "demo_http n ''http://example.test/img/a.png'' = Inr [CHR 0x01, CHR 0x02, CHR 0x03]"
  "demo_http n ''http://example.test/s.mp3'' = Inr ''ID3''"
  "demo_http n ''http://example.test/doc.pdf'' = Inr ''%PDF''"
  by (simp_all add: demo_http_def)

lemma demo_titles [simp]:
  "page_title demo_soup = Some ''Demo Page Title''"
  "page_title gallery_soup = Some ''Gallery''"
  by (simp_all add: page_title_def find_all_def demo_soup_def gallery_soup_def strip_def isspace_def)

lemma demo_references:
  "references demo_soup d = [(''a.png'', path_join d ''images'')]"
  "references gallery_soup d =
     [(''http://example.test/img/a.png'', path_join d ''images''),
      (''http://example.test/s.mp3'', path_join d ''audio''),
      (''http://example.test/doc.pdf'', path_join d ''pdfs''),
      (''http://example.test/doc.pdf'', path_join d ''text'')]"
  by (simp_all add: references_def categories_def tag_references_def find_all_def demo_soup_def gallery_soup_def)

lemma demo_names [simp]:
  "sanitize_filename ''Demo Page Title'' = ''Demo_Page_Title''"
  "sanitize_filename ''Gallery'' = ''Gallery''"
  "sanitize_filename ''a.png'' = ''a.png''"
  "sanitize_filename ''s.mp3'' = ''s.mp3''"
  "sanitize_filename ''doc.pdf'' = ''doc.pdf''"
  by (simp_all add: sanitize_filename_def split_first_def ascii_letters_def digits_def)

lemmas run_defs =
  parse_website_def time_time_def requests_get_def demo_urlparse_values
  create_directory_def makedirs_def write_file_def subdirectories_def path_join_def
  startswith_def demo_references fetch_reference_def resolve_def download_file_def
  is_valid_url_def basename_def dirname_def modify_html_content_def emit_def tick_def print_line_def
  fresh_def Let_def

lemma demo_run:
  "parse_website demo ''http://example.test/'' 4 fresh =
     (Inr Completed,
      \<lparr> files = [''20240102_030405_Demo_Page_Title/index.html'' \<mapsto> demo_prettify (rewrite_soup demo_soup)],
        trace =
          [Get ''http://example.test/'',
           Makedirs ''20240102_030405_Demo_Page_Title'',
           Makedirs ''20240102_030405_Demo_Page_Title/images'',
           Makedirs ''20240102_030405_Demo_Page_Title/audio'',
           Makedirs ''20240102_030405_Demo_Page_Title/pdfs'',
           Makedirs ''20240102_030405_Demo_Page_Title/text'',
           Makedirs ''20240102_030405_Demo_Page_Title/js'',
           Makedirs ''20240102_030405_Demo_Page_Title/css'',
           Wrote ''20240102_030405_Demo_Page_Title/index.html'' demo_html,
           Called ''a.png'' ''a.png'' ''20240102_030405_Demo_Page_Title/images'',
           Print ''Skipping invalid URL: a.png'',
           Wrote ''20240102_030405_Demo_Page_Title/index.html'' (demo_prettify (rewrite_soup demo_soup)),
           Print ''Website parsing and download completed.''],
        ticks = 12 \<rparr>)"
  by (simp add: run_defs)

lemma demo_run_truncated:
  "parse_website demo ''http://example.test/'' 0 fresh =
     (Inr Truncated,
      \<lparr> files = [''20240102_030405_Demo_Page_Title/index.html'' \<mapsto> demo_html],
        trace =
          [Get ''http://example.test/'',
           Makedirs ''20240102_030405_Demo_Page_Title'',
           Makedirs ''20240102_030405_Demo_Page_Title/images'',
           Makedirs ''20240102_030405_Demo_Page_Title/audio'',
           Makedirs ''20240102_030405_Demo_Page_Title/pdfs'',
           Makedirs ''20240102_030405_Demo_Page_Title/text'',
           Makedirs ''20240102_030405_Demo_Page_Title/js'',
           Makedirs ''20240102_030405_Demo_Page_Title/css'',
           Wrote ''20240102_030405_Demo_Page_Title/index.html'' demo_html,
           Called ''a.png'' ''a.png'' ''20240102_030405_Demo_Page_Title/images'',
           Print ''Skipping invalid URL: a.png'',
           Print ''Time limit exceeded (0s). Stopping further downloads.''],
        ticks = 11 \<rparr>)"
  by (simp add: run_defs str_int_def nat_digits.simps digits_def)

lemma gallery_run_truncated:
  "parse_website demo ''http://example.test/gallery'' 0 fresh =
     (Inr Truncated,
      \<lparr> files = [''20240102_030405_Gallery/index.html'' \<mapsto> gallery_html,
                 ''20240102_030405_Gallery/images/a.png'' \<mapsto> [CHR 0x01, CHR 0x02, CHR 0x03]],
        trace =
          [Get ''http://example.test/gallery'',
           Makedirs ''20240102_030405_Gallery'',
           Makedirs ''20240102_030405_Gallery/images'',
           Makedirs ''20240102_030405_Gallery/audio'',
           Makedirs ''20240102_030405_Gallery/pdfs'',
           Makedirs ''20240102_030405_Gallery/text'',
           Makedirs ''20240102_030405_Gallery/js'',
           Makedirs ''20240102_030405_Gallery/css'',
           Wrote ''20240102_030405_Gallery/index.html'' gallery_html,
           Called ''http://example.test/img/a.png'' ''a.png'' ''20240102_030405_Gallery/images'',
           Get ''http://example.test/img/a.png'',
           Makedirs ''20240102_030405_Gallery/images'',
           Wrote ''20240102_030405_Gallery/images/a.png'' [CHR 0x01, CHR 0x02, CHR 0x03],
           Print ''Time limit exceeded (0s). Stopping further downloads.''],
        ticks = 14 \<rparr>)"
  by (simp add: run_defs str_int_def nat_digits.simps digits_def)

lemma gallery_run:
  "parse_website demo ''http://example.test/gallery'' 4 fresh =
     (Inr Completed,
      \<lparr> files = [''20240102_030405_Gallery/index.html'' \<mapsto> gallery_html,
                 ''20240102_030405_Gallery/images/a.png'' \<mapsto> [CHR 0x01, CHR 0x02, CHR 0x03],
                 ''20240102_030405_Gallery/audio/s.mp3'' \<mapsto> ''ID3'',
                 ''20240102_030405_Gallery/pdfs/doc.pdf'' \<mapsto> ''%PDF'',
                 ''20240102_030405_Gallery/text/doc.pdf'' \<mapsto> ''%PDF'',
                 ''20240102_030405_Gallery/index.html'' \<mapsto> demo_prettify (rewrite_soup gallery_soup)],
        trace =
          [Get ''http://example.test/gallery'',
           Makedirs ''20240102_030405_Gallery'',
           Makedirs ''20240102_030405_Gallery/images'',
           Makedirs ''20240102_030405_Gallery/audio'',
           Makedirs ''20240102_030405_Gallery/pdfs'',
           Makedirs ''20240102_030405_Gallery/text'',
           Makedirs ''20240102_030405_Gallery/js'',
           Makedirs ''20240102_030405_Gallery/css'',
           Wrote ''20240102_030405_Gallery/index.html'' gallery_html,
           Called ''http://example.test/img/a.png'' ''a.png'' ''20240102_030405_Gallery/images'',
           Get ''http://example.test/img/a.png'',
           Makedirs ''20240102_030405_Gallery/images'',
           Wrote ''20240102_030405_Gallery/images/a.png'' [CHR 0x01, CHR 0x02, CHR 0x03],
           Called ''http://example.test/s.mp3'' ''s.mp3'' ''20240102_030405_Gallery/audio'',
           Get ''http://example.test/s.mp3'',
           Makedirs ''20240102_030405_Gallery/audio'',
           Wrote ''20240102_030405_Gallery/audio/s.mp3'' ''ID3'',
           Called ''http://example.test/doc.pdf'' ''doc.pdf'' ''20240102_030405_Gallery/pdfs'',
           Get ''http://example.test/doc.pdf'',
           Makedirs ''20240102_030405_Gallery/pdfs'',
           Wrote ''20240102_030405_Gallery/pdfs/doc.pdf'' ''%PDF'',
           Called ''http://example.test/doc.pdf'' ''doc.pdf'' ''20240102_030405_Gallery/text'',
           Get ''http://example.test/doc.pdf'',
           Makedirs ''20240102_030405_Gallery/text'',
           Wrote ''20240102_030405_Gallery/text/doc.pdf'' ''%PDF'',
           Wrote ''20240102_030405_Gallery/index.html'' (demo_prettify (rewrite_soup gallery_soup)),
           Print ''Website parsing and download completed.''],
        ticks = 27 \<rparr>)"
  by (simp add: run_defs)

lemma gallery_rewritten:
  "rewrite_soup gallery_soup =
     [Element ''html'' []
        [Element ''head'' []
           [Element ''title'' [] [Text ''Gallery''],
            Element ''link'' [(''rel'', ''stylesheet''), (''href'', ''css/http___example.test_s.css'')] []],
         Element ''body'' []
           [Element ''img'' [(''src'', ''images/http___example.test_img_a.png'')] [],
            Element ''audio'' [(''src'', ''http://example.test/s.mp3'')] [],
            Element ''a'' [(''href'', ''http://example.test/doc.pdf'')] [Text ''doc'']]]]"
  by (simp add: rewrite_soup_def gallery_soup_def localize_def is_stylesheet_link_def tokens_def
      isspace_def path_join_def startswith_def sanitize_filename_def split_first_def
      ascii_letters_def digits_def)

lemma demo_rewritten:
  "rewrite_soup demo_soup =
     [Element ''html'' []
        [Element ''head'' [] [Element ''title'' [] [Text ''Demo Page Title'']],
         Element ''body'' [] [Element ''img'' [(''src'', ''images/a.png'')] []]]]"
  by (simp add: rewrite_soup_def demo_soup_def localize_def is_stylesheet_link_def
      path_join_def startswith_def sanitize_filename_def split_first_def
      ascii_letters_def digits_def)

lemma demo_prettified_differs: "demo_prettify (rewrite_soup demo_soup) \<noteq> demo_html"
  by (simp add: demo_rewritten demo_prettify_def demo_html_def sorted_attrs_def)

section \<open>The rewriter on the tree\<close>

lemma elems_for_each: "elems (for_each sel f n) = map (for_each sel f) (elems n)"
proof (induction n rule: elems.induct)
  case (1 s)
  show ?case by simp
next
  case (2 t a cs)
  have "concat (map (elems \<circ> for_each sel f) cs) = concat (map (map (for_each sel f) \<circ> elems) cs)"
    using 2 by (intro arg_cong [where f = concat] map_cong) auto
  then show ?case by (simp add: map_concat)
qed

lemma tag_of_for_each [simp]: "tag_of (for_each sel f n) = tag_of n"
  by (cases n) auto

lemma attrs_of_for_each:
  "attrs_of (for_each sel f (Element t a cs)) = (if sel t a then f a else a)"
  by simp

lemma all_elems_for_each:
  "concat (map elems (map (for_each sel f) soup)) = map (for_each sel f) (concat (map elems soup))"
  by (induction soup) (auto simp: elems_for_each)

lemma elems_are_elements: "e \<in> set (elems n) \<Longrightarrow> \<exists>t a cs. e = Element t a cs"
  by (induction n rule: elems.induct) auto

lemma three_loops_on_element:
  "attrs_of (for_each is_stylesheet_link (localize ''href'' ''css'')
      (for_each (\<lambda>t a. t = ''script'') (localize ''src'' ''js'')
         (for_each (\<lambda>t a. t = ''img'') (localize ''src'' ''images'') (Element t a cs))))
   = rewritten_attrs t a"
  by (simp add: rewritten_attrs_def is_stylesheet_link_def)

lemma rewrite_soup_elems:
  "map (\<lambda>e. (tag_of e, attrs_of e)) (concat (map elems (rewrite_soup soup)))
   = map (\<lambda>e. (tag_of e, rewritten_attrs (tag_of e) (attrs_of e))) (concat (map elems soup))"
proof -
  let ?G = "\<lambda>e. for_each is_stylesheet_link (localize ''href'' ''css'')
        (for_each (\<lambda>t a. t = ''script'') (localize ''src'' ''js'')
           (for_each (\<lambda>t a. t = ''img'') (localize ''src'' ''images'') e))"
  have pointwise: "attrs_of (?G e) = rewritten_attrs (tag_of e) (attrs_of e)"
    if "e \<in> set (concat (map elems soup))" for e
  proof -
    from that obtain n where "e \<in> set (elems n)" by auto
    then obtain t a cs where "e = Element t a cs"
      using elems_are_elements by blast
    then show ?thesis
      using three_loops_on_element by simp
  qed
  have "concat (map elems (rewrite_soup soup))
      = map (for_each is_stylesheet_link (localize ''href'' ''css''))
          (map (for_each (\<lambda>t a. t = ''script'') (localize ''src'' ''js''))
             (map (for_each (\<lambda>t a. t = ''img'') (localize ''src'' ''images''))
                (concat (map elems soup))))"
    by (simp only: rewrite_soup_def Let_def all_elems_for_each)
  then have "concat (map elems (rewrite_soup soup)) = map ?G (concat (map elems soup))"
    by (simp only: map_map comp_def)
  then have "map (\<lambda>e. (tag_of e, attrs_of e)) (concat (map elems (rewrite_soup soup)))
      = map (\<lambda>e. (tag_of (?G e), attrs_of (?G e))) (concat (map elems soup))"
    by (simp only: map_map comp_def)
  also have "\<dots> = map (\<lambda>e. (tag_of e, rewritten_attrs (tag_of e) (attrs_of e))) (concat (map elems soup))"
    by (rule map_cong [OF refl]) (simp add: pointwise)
  finally show ?thesis .
qed

lemma find_all_rewrite_soup:
  "map attrs_of (find_all tag (rewrite_soup soup))
   = map (\<lambda>e. rewritten_attrs tag (attrs_of e)) (find_all tag soup)"
proof -
  have "map snd (filter (\<lambda>p. fst p = tag) (map (\<lambda>e. (tag_of e, attrs_of e)) (concat (map elems (rewrite_soup soup)))))
      = map snd (filter (\<lambda>p. fst p = tag) (map (\<lambda>e. (tag_of e, rewritten_attrs (tag_of e) (attrs_of e))) (concat (map elems soup))))"
    by (simp only: rewrite_soup_elems)
  then show ?thesis
    by (simp add: find_all_def filter_map comp_def cong: map_cong)
qed

lemma map_of_set_attr: "map_of (set_attr k v a) = (map_of a)(k \<mapsto> v)"
  by (induction a) (auto simp: fun_upd_twist)

lemma localize_lookup:
  "map_of (localize k d a) =
     (case map_of a k of None \<Rightarrow> map_of a
      | Some v \<Rightarrow> (map_of a)(k \<mapsto> path_join d (sanitize_filename v)))"
  by (simp add: localize_def map_of_set_attr split: option.splits)

section \<open>The acquisition loop\<close>

lemma download_file_calls:
  "download_file E u f d w = (r, w') \<Longrightarrow> calls (trace w') = calls (trace w) @ [(u, f, d)]"
  by (auto simp: download_file_def Let_def requests_get_def makedirs_def write_file_def
      split: sum.splits prod.splits if_splits option.splits)

lemma fetch_reference_calls:
  assumes "fetch_reference E base r w = (Inr p, w')"
  shows "\<exists>c. call_of E base r = Some c \<and> calls (trace w') = calls (trace w) @ [c]"
  using assms
  by (cases r) (auto simp: fetch_reference_def call_of_def dest: download_file_calls split: option.splits)

lemma acquire_prefix:
  "acquire E base start limit refs w = (Inr truncated, w') \<Longrightarrow>
   \<exists>k\<le>length refs.
      map Some (calls (trace w')) = map Some (calls (trace w)) @ map (call_of E base) (take k refs)
      \<and> (truncated \<longrightarrow> 0 < k \<and> of_int limit \<le> clock E (ticks w' - 1) - start)
      \<and> (\<not> truncated \<longrightarrow> k = length refs)"
proof (induction refs arbitrary: w)
  case Nil
  then show ?case by simp
next
  case (Cons r rs)
  from Cons.prems obtain p w1 where f: "fetch_reference E base r w = (Inr p, w1)"
    by (auto split: prod.splits sum.splits)
  from fetch_reference_calls [OF f] obtain c where c: "call_of E base r = Some c"
    "calls (trace w1) = calls (trace w) @ [c]" by blast
  show ?case
  proof (cases "of_int limit \<le> clock E (ticks w1) - start")
    case True
    with Cons.prems f have "truncated"
      and "w' = print_line (''Time limit exceeded ('' @ str_int limit @ ''s). Stopping further downloads.'') (tick w1)"
      by (auto simp: time_time_def)
    with c True show ?thesis
      by (intro exI [of _ 1]) auto
  next
    case False
    with Cons.prems f have "acquire E base start limit rs (tick w1) = (Inr truncated, w')"
      by (auto simp: time_time_def)
    from Cons.IH [OF this] obtain k where k: "k \<le> length rs"
      "map Some (calls (trace w')) = map Some (calls (trace (tick w1))) @ map (call_of E base) (take k rs)"
      "truncated \<longrightarrow> 0 < k \<and> of_int limit \<le> clock E (ticks w' - 1) - start"
      "\<not> truncated \<longrightarrow> k = length rs" by blast
    with c show ?thesis
      by (intro exI [of _ "Suc k"]) auto
  qed
qed

lemma acquire_over_budget:
  assumes "acquire E base start limit (r # rs) w = (Inr truncated, w')"
    and "\<And>n. of_int limit \<le> clock E n - start"
  shows "truncated \<and> map Some (calls (trace w')) = map Some (calls (trace w)) @ [call_of E base r]"
proof -
  from assms(1) obtain p w1 where f: "fetch_reference E base r w = (Inr p, w1)"
    by (auto split: prod.splits sum.splits)
  from fetch_reference_calls [OF f] obtain c where c: "call_of E base r = Some c"
    "calls (trace w1) = calls (trace w) @ [c]" by blast
  from assms f have "truncated" "trace w' = trace w1 @ [Print (''Time limit exceeded ('' @ str_int limit @ ''s). Stopping further downloads.'')]"
    by (auto simp: time_time_def)
  with c show ?thesis by simp
qed

section \<open>The pipeline at concrete pages\<close>

text \<open>
  C1, at the page \<open>http://example.test/gallery\<close>, whose image is
  \<open>http://example.test/img/a.png\<close>: the scheduler saves the bytes under
  \<open>images/a.png\<close> (the sanitized base name of the URL), while the rewriter writes
  \<open>images/http___example.test_img_a.png\<close> (the sanitized whole attribute value) into the
  page, a path at which there is no file.
\<close>

theorem saved_path_differs_from_rewritten_path:
  "fst (parse_website demo ''http://example.test/gallery'' 4 fresh) = Inr Completed
   \<and> files (snd (parse_website demo ''http://example.test/gallery'' 4 fresh))
        ''20240102_030405_Gallery/images/a.png'' = Some [CHR 0x01, CHR 0x02, CHR 0x03]
   \<and> path_join ''images'' (sanitize_filename (basename ''http://example.test/img/a.png'')) = ''images/a.png''
   \<and> files (snd (parse_website demo ''http://example.test/gallery'' 4 fresh))
        ''20240102_030405_Gallery/index.html'' = Some (demo_prettify (rewrite_soup gallery_soup))
   \<and> map attrs_of (find_all ''img'' (rewrite_soup gallery_soup))
       = [[(''src'', ''images/http___example.test_img_a.png'')]]
   \<and> files (snd (parse_website demo ''http://example.test/gallery'' 4 fresh))
        ''20240102_030405_Gallery/images/http___example.test_img_a.png'' = None"
  by (simp add: gallery_run gallery_rewritten find_all_def path_join_def startswith_def basename_def)

text \<open>
  C3, at the page \<open>http://example.test/\<close> with a time limit of 0: the run ends at the
  \<open>return\<close> of line 195, \<open>modify_html_content\<close> is never called, the only file
  written is the raw page, and \<open>index.html\<close> still holds the raw bytes, with the
  image's \<open>src\<close> not rewritten.
\<close>

theorem truncated_run_leaves_raw_page:
  "fst (parse_website demo ''http://example.test/'' 0 fresh) = Inr Truncated
   \<and> writes (trace (snd (parse_website demo ''http://example.test/'' 0 fresh)))
       = [(''20240102_030405_Demo_Page_Title/index.html'', demo_html)]
   \<and> files (snd (parse_website demo ''http://example.test/'' 0 fresh))
        ''20240102_030405_Demo_Page_Title/index.html'' = Some demo_html
   \<and> demo_prettify (rewrite_soup (parse_html demo demo_html)) \<noteq> demo_html
   \<and> map attrs_of (find_all ''img'' (parse_html demo demo_html)) = [[(''src'', ''a.png'')]]"
  using demo_prettified_differs
  by (simp add: demo_run_truncated find_all_def demo_soup_def)

section \<open>What a run of the loop leaves in the trace\<close>

lemma download_file_trace:
  "download_file E u f d w = (r, w') \<Longrightarrow> \<exists>es. trace w' = trace w @ es"
  by (auto simp: download_file_def Let_def requests_get_def makedirs_def write_file_def
      split: sum.splits prod.splits if_splits option.splits)

lemma fetch_reference_trace:
  "fetch_reference E base r w = (res, w') \<Longrightarrow> \<exists>es. trace w' = trace w @ es"
  by (cases r) (auto simp: fetch_reference_def dest: download_file_trace split: option.splits)

lemma acquire_trace:
  "acquire E base start limit refs w = (res, w') \<Longrightarrow> \<exists>es. trace w' = trace w @ es"
proof (induction refs arbitrary: w)
  case Nil
  then show ?case by simp
next
  case (Cons r rs)
  obtain q w1 where f: "fetch_reference E base r w = (q, w1)"
    by (cases "fetch_reference E base r w")
  from fetch_reference_trace [OF f] obtain es1 where es1: "trace w1 = trace w @ es1" ..
  show ?case
  proof (cases q)
    case (Inl e)
    with Cons.prems f es1 show ?thesis by auto
  next
    case (Inr p)
    show ?thesis
    proof (cases "of_int limit \<le> clock E (ticks w1) - start")
      case True
      with Cons.prems f Inr es1 show ?thesis
        by (auto simp: time_time_def)
    next
      case False
      with Cons.prems f Inr have "acquire E base start limit rs (tick w1) = (res, w')"
        by (auto simp: time_time_def)
      from Cons.IH [OF this] obtain es2 where "trace w' = trace (tick w1) @ es2" ..
      with es1 show ?thesis by simp
    qed
  qed
qed

lemma acquire_step:
  assumes "acquire E base start limit (r # rs) w = (Inr False, w')"
  obtains p w1 where "fetch_reference E base r w = (Inr p, w1)"
    and "acquire E base start limit rs (tick w1) = (Inr False, w')"
  using assms
  by (auto simp: time_time_def split: prod.splits sum.splits if_splits)

lemma acquire_append:
  "acquire E base start limit (xs @ ys) w = (Inr False, w') \<Longrightarrow>
   \<exists>w1. acquire E base start limit xs w = (Inr False, w1)
      \<and> acquire E base start limit ys w1 = (Inr False, w')"
proof (induction xs arbitrary: w)
  case Nil
  then show ?case by simp
next
  case (Cons r rs)
  from Cons.prems have "acquire E base start limit (r # (rs @ ys)) w = (Inr False, w')" by simp
  then obtain p w1 where f: "fetch_reference E base r w = (Inr p, w1)"
    and rest: "acquire E base start limit (rs @ ys) (tick w1) = (Inr False, w')"
    by (rule acquire_step)
  from Cons.IH [OF rest] obtain w2 where a: "acquire E base start limit rs (tick w1) = (Inr False, w2)"
    and b: "acquire E base start limit ys w2 = (Inr False, w')" by blast
  have "\<not> of_int limit \<le> clock E (ticks w1) - start"
    using Cons.prems f by (auto simp: time_time_def split: if_splits)
  with f a have "acquire E base start limit (r # rs) w = (Inr False, w2)"
    by (simp add: time_time_def)
  with b show ?case by blast
qed

lemma tag_references_mem:
  "e \<in> set (find_all tag soup) \<Longrightarrow> map_of (attrs_of e) attribute = Some v \<Longrightarrow>
   (v, sub) \<in> set (tag_references soup (tag, attribute, sub))"
  by (force simp: tag_references_def)

lemma references_split:
  "references soup d =
     (tag_references soup (''img'', ''src'', path_join d ''images'')
      @ tag_references soup (''audio'', ''src'', path_join d ''audio'')
      @ tag_references soup (''a'', ''href'', path_join d ''pdfs''))
     @ (tag_references soup (''a'', ''href'', path_join d ''text'')
      @ tag_references soup (''script'', ''src'', path_join d ''js''))"
  by (simp add: references_def categories_def)

lemma tag_references_values:
  "map fst (tag_references soup (tag, attribute, sub)) =
     concat (map (\<lambda>e. case map_of (attrs_of e) attribute of None \<Rightarrow> [] | Some v \<Rightarrow> [v])
               (find_all tag soup))"
  by (simp add: tag_references_def map_concat comp_def option.case_distrib [of "map fst"]
      cong: option.case_cong)

section \<open>Runs that complete\<close>

lemma write_file_effect:
  "write_file E path content w = (None, w') \<Longrightarrow>
     trace w' = trace w @ [Wrote path content] \<and> files w' = (files w)(path \<mapsto> content)
     \<and> ticks w' = Suc (ticks w)"
  by (auto simp: write_file_def split: option.splits)

lemma modify_html_content_effect:
  assumes "modify_html_content E content d b w = (Inr u, w')"
  shows "trace w' = trace w @ [Wrote (path_join d ''index.html'') (prettify E (rewrite_soup (parse_html E content)))]"
    and "files w' = (files w)(path_join d ''index.html'' \<mapsto> prettify E (rewrite_soup (parse_html E content)))"
  using assms
  by (auto simp: modify_html_content_def Let_def dest: write_file_effect split: prod.splits option.splits)

section \<open>What the rewriter rewrites\<close>

lemma sanitize_not_absolute: "\<not> startswith (sanitize_filename v) ''/''"
proof
  assume "startswith (sanitize_filename v) ''/''"
  then have "CHR ''/'' \<in> set (sanitize_filename v)"
    by (cases "sanitize_filename v") (auto simp: startswith_def)
  then show False
    using sanitize_safe_chars [of "CHR ''/''" v] by (simp add: ascii_letters_def digits_def)
qed

lemma path_join_category:
  "subdir \<in> {''images'', ''js''} \<Longrightarrow>
   path_join subdir (sanitize_filename v) = subdir @ ''/'' @ sanitize_filename v"
  using sanitize_not_absolute [of v] by (auto simp: path_join_def)

lemma basename_bare: "CHR ''/'' \<notin> set v \<Longrightarrow> basename v = v"
proof -
  assume "CHR ''/'' \<notin> set v"
  then have "takeWhile (\<lambda>c. c \<noteq> CHR ''/'') (rev v) = rev v"
    by (intro takeWhile_eq_all_conv [THEN iffD2]) auto
  then show ?thesis by (simp only: basename_def rev_rev_ident)
qed

lemma rewritten_attrs_cases:
  "rewritten_attrs ''img'' a = localize ''src'' ''images'' a"
  "rewritten_attrs ''script'' a = localize ''src'' ''js'' a"
  "rewritten_attrs ''audio'' a = a"
  "rewritten_attrs ''a'' a = a"
  by (simp_all add: rewritten_attrs_def is_stylesheet_link_def)

lemma modify_html_content_writes:
  "write_fails E (ticks w) (path_join d ''index.html'') = None \<Longrightarrow>
   files (snd (modify_html_content E content d b w)) (path_join d ''index.html'')
     = Some (prettify E (rewrite_soup (parse_html E content)))"
  by (simp add: modify_html_content_def write_file_def Let_def)

text \<open>
  C5, as the program has it. The rewriter replaces the \<open>src\<close> of every \<open>img\<close> element
  and of every \<open>script\<close> element that has one: the new value is \<open>images/name\<close>,
  respectively \<open>js/name\<close>, where \<open>name\<close> has safe characters only and is the sanitized
  base name of the reference whenever the old value is a bare file name (no \<open>/\<close>, not
  starting with \<open>..\<close>); elements without a \<open>src\<close> keep their attributes. The \<open>audio\<close>
  and the \<open>a\<close> elements keep their attributes. The rewrite takes the parsed page alone,
  no outcome of any fetch: whatever the world it starts in, \<open>modify_html_content\<close>
  writes the serialization of the rewritten page to \<open>index.html\<close> when the write goes
  through.
\<close>

theorem rewriter_localizes_img_and_script_only:
  "map attrs_of (find_all ''img'' (rewrite_soup soup))
     = map (\<lambda>e. localize ''src'' ''images'' (attrs_of e)) (find_all ''img'' soup)
   \<and> map attrs_of (find_all ''script'' (rewrite_soup soup))
     = map (\<lambda>e. localize ''src'' ''js'' (attrs_of e)) (find_all ''script'' soup)
   \<and> map attrs_of (find_all ''audio'' (rewrite_soup soup)) = map attrs_of (find_all ''audio'' soup)
   \<and> map attrs_of (find_all ''a'' (rewrite_soup soup)) = map attrs_of (find_all ''a'' soup)
   \<and> (map_of a ''src'' = Some v \<and> subdir \<in> {''images'', ''js''} \<longrightarrow>
        (\<exists>name. map_of (localize ''src'' subdir a) = (map_of a)(''src'' \<mapsto> subdir @ ''/'' @ name)
           \<and> list_all (\<lambda>c. c \<in> set (ascii_letters @ digits @ ''._-'')) name
           \<and> (CHR ''/'' \<notin> set v \<and> \<not> startswith v ''..'' \<longrightarrow>
                resolve E base_url v = Some v \<and> name = sanitize_filename (basename v))))
   \<and> (map_of a ''src'' = None \<longrightarrow> localize ''src'' subdir a = a)
   \<and> (write_fails E (ticks w) (path_join directory_name ''index.html'') = None \<longrightarrow>
        files (snd (modify_html_content E content directory_name base_url w))
          (path_join directory_name ''index.html'')
        = Some (prettify E (rewrite_soup (parse_html E content))))"
proof (intro conjI impI)
  show "map attrs_of (find_all ''img'' (rewrite_soup soup))
     = map (\<lambda>e. localize ''src'' ''images'' (attrs_of e)) (find_all ''img'' soup)"
    and "map attrs_of (find_all ''script'' (rewrite_soup soup))
     = map (\<lambda>e. localize ''src'' ''js'' (attrs_of e)) (find_all ''script'' soup)"
    and "map attrs_of (find_all ''audio'' (rewrite_soup soup)) = map attrs_of (find_all ''audio'' soup)"
    and "map attrs_of (find_all ''a'' (rewrite_soup soup)) = map attrs_of (find_all ''a'' soup)"
    by (simp_all only: find_all_rewrite_soup rewritten_attrs_cases)
next
  assume h: "map_of a ''src'' = Some v \<and> subdir \<in> {''images'', ''js''}"
  have "map_of (localize ''src'' subdir a) = (map_of a)(''src'' \<mapsto> subdir @ ''/'' @ sanitize_filename v)"
    using h path_join_category [of subdir v] by (simp add: localize_lookup)
  moreover have "list_all (\<lambda>c. c \<in> set (ascii_letters @ digits @ ''._-'')) (sanitize_filename v)"
    using sanitize_safe_chars by (simp add: list_all_iff)
  moreover have "CHR ''/'' \<notin> set v \<and> \<not> startswith v ''..'' \<longrightarrow>
      resolve E base_url v = Some v \<and> sanitize_filename v = sanitize_filename (basename v)"
    by (simp add: resolve_def basename_bare)
  ultimately show "\<exists>name. map_of (localize ''src'' subdir a) = (map_of a)(''src'' \<mapsto> subdir @ ''/'' @ name)
           \<and> list_all (\<lambda>c. c \<in> set (ascii_letters @ digits @ ''._-'')) name
           \<and> (CHR ''/'' \<notin> set v \<and> \<not> startswith v ''..'' \<longrightarrow>
                resolve E base_url v = Some v \<and> name = sanitize_filename (basename v))"
    by (intro exI [of _ "sanitize_filename v"] conjI)
next
  assume "map_of a ''src'' = None"
  then show "localize ''src'' subdir a = a" by (simp add: localize_def)
next
  assume "write_fails E (ticks w) (path_join directory_name ''index.html'') = None"
  then show "files (snd (modify_html_content E content directory_name base_url w))
          (path_join directory_name ''index.html'')
        = Some (prettify E (rewrite_soup (parse_html E content)))"
    by (rule modify_html_content_writes)
qed

theorem rewriter_localizes_img_and_script_only_witness:
  "map attrs_of (find_all ''img'' demo_soup) = [[(''src'', ''a.png'')]]
   \<and> map attrs_of (find_all ''img'' (rewrite_soup demo_soup)) = [[(''src'', ''images/a.png'')]]
   \<and> map attrs_of (find_all ''audio'' (rewrite_soup gallery_soup)) = map attrs_of (find_all ''audio'' gallery_soup)
   \<and> (\<exists>name. map_of (localize ''src'' ''images'' [(''src'', ''a.png'')])
              = [''src'' \<mapsto> ''images/'' @ name]
        \<and> name = sanitize_filename (basename ''a.png''))
   \<and> sanitize_filename (basename ''a.png'') = ''a.png''
   \<and> files (snd (modify_html_content demo demo_html ''d'' ''http://example.test'' fresh)) ''d/index.html''
       = Some (demo_prettify (rewrite_soup demo_soup))"
proof -
  note T = rewriter_localizes_img_and_script_only [of demo_soup "[(''src'', ''a.png'')]" "''a.png''" "''images''"
      demo "''http://example.test''" fresh "''d''" demo_html]
  note G = rewriter_localizes_img_and_script_only [of gallery_soup "[(''src'', ''a.png'')]" "''a.png''" "''images''"
      demo "''http://example.test''" fresh "''d''" demo_html]
  have imgs: "map attrs_of (find_all ''img'' demo_soup) = [[(''src'', ''a.png'')]]"
    by (simp add: find_all_def demo_soup_def)
  have "map attrs_of (find_all ''img'' (rewrite_soup demo_soup))
     = map (\<lambda>e. localize ''src'' ''images'' (attrs_of e)) (find_all ''img'' demo_soup)"
    using T by blast
  then have rew: "map attrs_of (find_all ''img'' (rewrite_soup demo_soup)) = [[(''src'', ''images/a.png'')]]"
    by (simp add: find_all_def demo_soup_def localize_def path_join_def startswith_def)
  have audio: "map attrs_of (find_all ''audio'' (rewrite_soup gallery_soup)) = map attrs_of (find_all ''audio'' gallery_soup)"
    using G by blast
  have pre: "map_of [(''src'', ''a.png'')] ''src'' = Some ''a.png'' \<and> ''images'' \<in> {''images'', ''js''}"
    and bare: "CHR ''/'' \<notin> set ''a.png'' \<and> \<not> startswith ''a.png'' ''..''"
    by (simp_all add: startswith_def)
  from T pre have "\<exists>name. map_of (localize ''src'' ''images'' [(''src'', ''a.png'')])
        = (map_of [(''src'', ''a.png'')])(''src'' \<mapsto> ''images'' @ ''/'' @ name)
      \<and> list_all (\<lambda>c. c \<in> set (ascii_letters @ digits @ ''._-'')) name
      \<and> (CHR ''/'' \<notin> set ''a.png'' \<and> \<not> startswith ''a.png'' ''..'' \<longrightarrow>
            resolve demo ''http://example.test'' ''a.png'' = Some ''a.png''
            \<and> name = sanitize_filename (basename ''a.png''))"
    by blast
  with bare have name: "\<exists>name. map_of (localize ''src'' ''images'' [(''src'', ''a.png'')])
              = [''src'' \<mapsto> ''images/'' @ name]
        \<and> name = sanitize_filename (basename ''a.png'')"
    by auto
  have bn: "sanitize_filename (basename ''a.png'') = ''a.png''"
    by (simp add: basename_def)
  have "write_fails demo (ticks fresh) (path_join ''d'' ''index.html'') = None" by simp
  with T have "files (snd (modify_html_content demo demo_html ''d'' ''http://example.test'' fresh))
          (path_join ''d'' ''index.html'')
        = Some (prettify demo (rewrite_soup (parse_html demo demo_html)))"
    by blast
  then have page: "files (snd (modify_html_content demo demo_html ''d'' ''http://example.test'' fresh)) ''d/index.html''
       = Some (demo_prettify (rewrite_soup demo_soup))"
    by (simp add: path_join_def startswith_def)
  show ?thesis
    using imgs rew audio name bn page by blast
qed

text \<open>
  C5 as stated fails at the gallery page: its \<open>audio\<close> element and its link are among the
  references the scheduler handles, and the rewriter leaves the \<open>src\<close> and the \<open>href\<close>
  as they were, not \<open>audio/s.mp3\<close> or a local path.
\<close>

theorem audio_and_links_not_rewritten:
  "(''http://example.test/s.mp3'', ''d/audio'') \<in> set (references gallery_soup ''d'')
   \<and> (''http://example.test/doc.pdf'', ''d/pdfs'') \<in> set (references gallery_soup ''d'')
   \<and> map attrs_of (find_all ''audio'' (rewrite_soup gallery_soup))
       = [[(''src'', ''http://example.test/s.mp3'')]]
   \<and> map attrs_of (find_all ''audio'' (rewrite_soup gallery_soup))
       \<noteq> [[(''src'', ''audio/s.mp3'')]]
   \<and> map attrs_of (find_all ''a'' (rewrite_soup gallery_soup))
       = [[(''href'', ''http://example.test/doc.pdf'')]]"
  by (simp add: demo_references gallery_rewritten find_all_def path_join_def startswith_def)

section \<open>The end-to-end scenario\<close>

lemma demo_img_rewritten:
  "map attrs_of (find_all ''img'' (rewrite_soup demo_soup)) = [[(''src'', ''images/a.png'')]]"
  by (simp add: demo_rewritten find_all_def)

text \<open>
  C4, as the program has it. The root page is \<open>http://example.test/\<close>, its HTML is
  \<open>demo_html\<close> (title \<open>Demo Page Title\<close>, one \<open>img\<close> with \<open>src="a.png"\<close>), the file
  system refuses nothing and the clock reading after the image is within the limit.
  Then the run completes; it creates the directory \<open>timestamp_Demo_Page_Title\<close> and its
  six subdirectories, writes the raw page and then the rewritten page to \<open>index.html\<close>,
  and the \<open>img\<close> of the rewritten page has \<open>src="images/a.png"\<close>. The asset is not
  fetched: \<open>a.png\<close> does not start with \<open>..\<close>, so it is not joined to the base URL, it
  has no scheme or no network location, and \<open>download_file\<close> skips it; the root page is
  the only request, and \<open>index.html\<close> is the only file that changes.
\<close>

theorem demo_page_rewritten_asset_skipped:
  assumes "urlparse E ''http://example.test/'' = Some (scheme, netloc)"
    and "urlparse E ''a.png'' = Some (scheme', netloc')" and "scheme' = [] \<or> netloc' = []"
    and "http_get E (Suc (ticks w)) ''http://example.test/'' = Inr demo_html"
    and "parse_html E demo_html = demo_soup"
    and "\<And>n path. \<not> mkdir_fails E n path" and "\<And>n path. write_fails E n path = None"
    and "clock E (ticks w + 10) - clock E (ticks w) < of_int time_limit"
  shows "fst (parse_website E ''http://example.test/'' time_limit w) = Inr Completed
    \<and> trace (snd (parse_website E ''http://example.test/'' time_limit w)) = trace w @
         [Get ''http://example.test/'',
          Makedirs (timestamp E @ ''_Demo_Page_Title''),
          Makedirs (timestamp E @ ''_Demo_Page_Title/images''),
          Makedirs (timestamp E @ ''_Demo_Page_Title/audio''),
          Makedirs (timestamp E @ ''_Demo_Page_Title/pdfs''),
          Makedirs (timestamp E @ ''_Demo_Page_Title/text''),
          Makedirs (timestamp E @ ''_Demo_Page_Title/js''),
          Makedirs (timestamp E @ ''_Demo_Page_Title/css''),
          Wrote (timestamp E @ ''_Demo_Page_Title/index.html'') demo_html,
          Called ''a.png'' ''a.png'' (timestamp E @ ''_Demo_Page_Title/images''),
          Print ''Skipping invalid URL: a.png'',
          Wrote (timestamp E @ ''_Demo_Page_Title/index.html'') (prettify E (rewrite_soup demo_soup)),
          Print ''Website parsing and download completed.'']
    \<and> files (snd (parse_website E ''http://example.test/'' time_limit w))
        = (files w)(timestamp E @ ''_Demo_Page_Title/index.html'' \<mapsto> prettify E (rewrite_soup demo_soup))
    \<and> map attrs_of (find_all ''img'' (rewrite_soup demo_soup)) = [[(''src'', ''images/a.png'')]]"
proof -
  have invalid: "is_valid_url E ''a.png'' = Inr False"
    using assms(2,3) by (auto simp: is_valid_url_def)
  have within: "\<not> of_int time_limit \<le> clock E (Suc (Suc (Suc (Suc (Suc (Suc (Suc (Suc (Suc (Suc (ticks w))))))))))) - clock E (ticks w)"
    using assms(8) by (simp add: eval_nat_numeral)
  have run: "fst (parse_website E ''http://example.test/'' time_limit w) = Inr Completed
    \<and> trace (snd (parse_website E ''http://example.test/'' time_limit w)) = trace w @
         [Get ''http://example.test/'',
          Makedirs (timestamp E @ ''_Demo_Page_Title''),
          Makedirs (timestamp E @ ''_Demo_Page_Title/images''),
          Makedirs (timestamp E @ ''_Demo_Page_Title/audio''),
          Makedirs (timestamp E @ ''_Demo_Page_Title/pdfs''),
          Makedirs (timestamp E @ ''_Demo_Page_Title/text''),
          Makedirs (timestamp E @ ''_Demo_Page_Title/js''),
          Makedirs (timestamp E @ ''_Demo_Page_Title/css''),
          Wrote (timestamp E @ ''_Demo_Page_Title/index.html'') demo_html,
          Called ''a.png'' ''a.png'' (timestamp E @ ''_Demo_Page_Title/images''),
          Print ''Skipping invalid URL: a.png'',
          Wrote (timestamp E @ ''_Demo_Page_Title/index.html'') (prettify E (rewrite_soup demo_soup)),
          Print ''Website parsing and download completed.'']
    \<and> files (snd (parse_website E ''http://example.test/'' time_limit w))
        = (files w)(timestamp E @ ''_Demo_Page_Title/index.html'' \<mapsto> prettify E (rewrite_soup demo_soup))"
    using assms(1,4,5,6,7) invalid within
    by (simp add: parse_website_def time_time_def requests_get_def
      create_directory_def makedirs_def write_file_def subdirectories_def path_join_def
      startswith_def demo_references fetch_reference_def resolve_def download_file_def
      basename_def modify_html_content_def emit_def tick_def print_line_def Let_def)
  with demo_img_rewritten show ?thesis by simp
qed

theorem demo_page_rewritten_asset_skipped_witness:
  "fst (parse_website demo ''http://example.test/'' 4 fresh) = Inr Completed
   \<and> Makedirs ''20240102_030405_Demo_Page_Title''
       \<in> set (trace (snd (parse_website demo ''http://example.test/'' 4 fresh)))
   \<and> requests (trace (snd (parse_website demo ''http://example.test/'' 4 fresh)))
       = [''http://example.test/'']
   \<and> files (snd (parse_website demo ''http://example.test/'' 4 fresh))
       = [''20240102_030405_Demo_Page_Title/index.html'' \<mapsto> demo_prettify (rewrite_soup demo_soup)]
   \<and> map attrs_of (find_all ''img'' (rewrite_soup demo_soup)) = [[(''src'', ''images/a.png'')]]"
proof -
  have clock: "clock demo (ticks fresh + 10) - clock demo (ticks fresh) < of_int 4"
    by (simp add: fresh_def)
  have get: "http_get demo (Suc (ticks fresh)) ''http://example.test/'' = Inr demo_html"
    by simp
  have parse: "parse_html demo demo_html = demo_soup" by simp
  have up1: "urlparse demo ''http://example.test/'' = Some (''http'', ''example.test'')"
    and up2: "urlparse demo ''a.png'' = Some ([], [])"
    by (simp_all add: demo_urlparse_values)
  have "fst (parse_website demo ''http://example.test/'' 4 fresh) = Inr Completed
    \<and> trace (snd (parse_website demo ''http://example.test/'' 4 fresh)) = trace fresh @
         [Get ''http://example.test/'',
          Makedirs (timestamp demo @ ''_Demo_Page_Title''),
          Makedirs (timestamp demo @ ''_Demo_Page_Title/images''),
          Makedirs (timestamp demo @ ''_Demo_Page_Title/audio''),
          Makedirs (timestamp demo @ ''_Demo_Page_Title/pdfs''),
          Makedirs (timestamp demo @ ''_Demo_Page_Title/text''),
          Makedirs (timestamp demo @ ''_Demo_Page_Title/js''),
          Makedirs (timestamp demo @ ''_Demo_Page_Title/css''),
          Wrote (timestamp demo @ ''_Demo_Page_Title/index.html'') demo_html,
          Called ''a.png'' ''a.png'' (timestamp demo @ ''_Demo_Page_Title/images''),
          Print ''Skipping invalid URL: a.png'',
          Wrote (timestamp demo @ ''_Demo_Page_Title/index.html'') (prettify demo (rewrite_soup demo_soup)),
          Print ''Website parsing and download completed.'']
    \<and> files (snd (parse_website demo ''http://example.test/'' 4 fresh))
        = (files fresh)(timestamp demo @ ''_Demo_Page_Title/index.html'' \<mapsto> prettify demo (rewrite_soup demo_soup))
    \<and> map attrs_of (find_all ''img'' (rewrite_soup demo_soup)) = [[(''src'', ''images/a.png'')]]"
    by (rule demo_page_rewritten_asset_skipped [OF up1 up2 _ get parse _ _ clock]) simp_all
  then show ?thesis
    by (simp add: fresh_def)
qed

text \<open>
  C4 as stated fails in the concrete environment, whose server would answer
  \<open>http://example.test/a.png\<close> with the bytes 1, 2, 3: the run completes, there is no
  file \<open>images/a.png\<close>, the only request is the one for the root page, and both writes
  go to \<open>index.html\<close>.
\<close>

theorem demo_asset_never_fetched:
  "fst (parse_website demo ''http://example.test/'' 4 fresh) = Inr Completed
   \<and> files (snd (parse_website demo ''http://example.test/'' 4 fresh))
        ''20240102_030405_Demo_Page_Title/images/a.png'' = None
   \<and> requests (trace (snd (parse_website demo ''http://example.test/'' 4 fresh)))
       = [''http://example.test/'']
   \<and> map fst (writes (trace (snd (parse_website demo ''http://example.test/'' 4 fresh))))
       = [''20240102_030405_Demo_Page_Title/index.html'', ''20240102_030405_Demo_Page_Title/index.html'']"
  by (simp add: demo_run)

section \<open>Where the loop stops\<close>

lemma acquire_step_within:
  assumes "acquire E base start limit (r # rs) w = (Inr False, w')"
  obtains p w1 where "fetch_reference E base r w = (Inr p, w1)"
    and "\<not> of_int limit \<le> clock E (ticks w1) - start"
    and "acquire E base start limit rs (tick w1) = (Inr False, w')"
  using assms
  by (auto simp: time_time_def split: prod.splits sum.splits if_splits)

lemma acquire_past_prefix:
  "acquire E base start limit xs w = (Inr False, w1) \<Longrightarrow>
   acquire E base start limit (xs @ zs) w = acquire E base start limit zs w1"
proof (induction xs arbitrary: w)
  case Nil
  then show ?case by simp
next
  case (Cons r rs)
  from Cons.prems obtain p wa where f: "fetch_reference E base r w = (Inr p, wa)"
    and within: "\<not> of_int limit \<le> clock E (ticks wa) - start"
    and rest: "acquire E base start limit rs (tick wa) = (Inr False, w1)"
    by (rule acquire_step_within)
  from Cons.IH [OF rest] f within show ?case
    by (simp add: time_time_def)
qed

lemma acquire_at_item:
  assumes "acquire E base start limit xs w = (Inr False, w1)"
    and "fetch_reference E base r w1 = (Inr p, w2)"
  shows "acquire E base start limit (xs @ r # ys) w =
           (if of_int limit \<le> clock E (ticks w2) - start
            then (Inr True, print_line (''Time limit exceeded ('' @ str_int limit
                                         @ ''s). Stopping further downloads.'') (tick w2))
            else acquire E base start limit ys (tick w2))"
  using acquire_past_prefix [OF assms(1), of "r # ys"] assms(2)
  by (simp add: time_time_def)

lemma acquire_calls_all:
  assumes "acquire E base start limit xs w = (Inr False, w1)"
  shows "map Some (calls (trace w1)) = map Some (calls (trace w)) @ map (call_of E base) xs"
  using acquire_prefix [OF assms] by auto

lemma gallery_acquire_truncated:
  "acquire demo ''http://example.test'' 0 0 (references gallery_soup ''d'') fresh =
     (Inr True,
      \<lparr> files = [''d/images/a.png'' \<mapsto> [CHR 0x01, CHR 0x02, CHR 0x03]],
        trace =
          [Called ''http://example.test/img/a.png'' ''a.png'' ''d/images'',
           Get ''http://example.test/img/a.png'',
           Makedirs ''d/images'',
           Wrote ''d/images/a.png'' [CHR 0x01, CHR 0x02, CHR 0x03],
           Print ''Time limit exceeded (0s). Stopping further downloads.''],
        ticks = 4 \<rparr>)"
  by (simp add: run_defs str_int_def nat_digits.simps digits_def)

lemma gallery_acquire_one_second:
  "acquire demo ''http://example.test'' 0 1 (references gallery_soup ''d'') fresh =
     (Inr True,
      \<lparr> files = [''d/images/a.png'' \<mapsto> [CHR 0x01, CHR 0x02, CHR 0x03],
                 ''d/audio/s.mp3'' \<mapsto> ''ID3'',
                 ''d/pdfs/doc.pdf'' \<mapsto> ''%PDF''],
        trace =
          [Called ''http://example.test/img/a.png'' ''a.png'' ''d/images'',
           Get ''http://example.test/img/a.png'',
           Makedirs ''d/images'',
           Wrote ''d/images/a.png'' [CHR 0x01, CHR 0x02, CHR 0x03],
           Called ''http://example.test/s.mp3'' ''s.mp3'' ''d/audio'',
           Get ''http://example.test/s.mp3'',
           Makedirs ''d/audio'',
           Wrote ''d/audio/s.mp3'' ''ID3'',
           Called ''http://example.test/doc.pdf'' ''doc.pdf'' ''d/pdfs'',
           Get ''http://example.test/doc.pdf'',
           Makedirs ''d/pdfs'',
           Wrote ''d/pdfs/doc.pdf'' ''%PDF'',
           Print ''Time limit exceeded (1s). Stopping further downloads.''],
        ticks = 12 \<rparr>)"
  by (simp add: run_defs str_int_def nat_digits.simps digits_def)

lemma gallery_acquire_two_items:
  "acquire demo ''http://example.test'' 0 1
     [(''http://example.test/img/a.png'', ''d/images''), (''http://example.test/s.mp3'', ''d/audio'')] fresh =
     (Inr False,
      \<lparr> files = [''d/images/a.png'' \<mapsto> [CHR 0x01, CHR 0x02, CHR 0x03],
                 ''d/audio/s.mp3'' \<mapsto> ''ID3''],
        trace =
          [Called ''http://example.test/img/a.png'' ''a.png'' ''d/images'',
           Get ''http://example.test/img/a.png'',
           Makedirs ''d/images'',
           Wrote ''d/images/a.png'' [CHR 0x01, CHR 0x02, CHR 0x03],
           Called ''http://example.test/s.mp3'' ''s.mp3'' ''d/audio'',
           Get ''http://example.test/s.mp3'',
           Makedirs ''d/audio'',
           Wrote ''d/audio/s.mp3'' ''ID3''],
        ticks = 8 \<rparr>)"
  by (simp add: run_defs)

lemma gallery_fetch_third:
  "fetch_reference demo ''http://example.test'' (''http://example.test/doc.pdf'', ''d/pdfs'')
      \<lparr> files = [''d/images/a.png'' \<mapsto> [CHR 0x01, CHR 0x02, CHR 0x03],
                 ''d/audio/s.mp3'' \<mapsto> ''ID3''],
        trace =
          [Called ''http://example.test/img/a.png'' ''a.png'' ''d/images'',
           Get ''http://example.test/img/a.png'',
           Makedirs ''d/images'',
           Wrote ''d/images/a.png'' [CHR 0x01, CHR 0x02, CHR 0x03],
           Called ''http://example.test/s.mp3'' ''s.mp3'' ''d/audio'',
           Get ''http://example.test/s.mp3'',
           Makedirs ''d/audio'',
           Wrote ''d/audio/s.mp3'' ''ID3''],
        ticks = 8 \<rparr> =
     (Inr ''/home/user/d/pdfs/doc.pdf'',
      \<lparr> files = [''d/images/a.png'' \<mapsto> [CHR 0x01, CHR 0x02, CHR 0x03],
                 ''d/audio/s.mp3'' \<mapsto> ''ID3'',
                 ''d/pdfs/doc.pdf'' \<mapsto> ''%PDF''],
        trace =
          [Called ''http://example.test/img/a.png'' ''a.png'' ''d/images'',
           Get ''http://example.test/img/a.png'',
           Makedirs ''d/images'',
           Wrote ''d/images/a.png'' [CHR 0x01, CHR 0x02, CHR 0x03],
           Called ''http://example.test/s.mp3'' ''s.mp3'' ''d/audio'',
           Get ''http://example.test/s.mp3'',
           Makedirs ''d/audio'',
           Wrote ''d/audio/s.mp3'' ''ID3'',
           Called ''http://example.test/doc.pdf'' ''doc.pdf'' ''d/pdfs'',
           Get ''http://example.test/doc.pdf'',
           Makedirs ''d/pdfs'',
           Wrote ''d/pdfs/doc.pdf'' ''%PDF''],
        ticks = 11 \<rparr>)"
  by (simp add: run_defs)


text \<open>
  C2, as the program has it. The clock is read after a reference has been processed, not
  before. The calls of \<open>download_file\<close> a run of the loop makes are those of a prefix of
  the references; a run that ends truncated has processed at least one reference, and
  its last interaction is the clock reading that reached the limit; a run that does not
  end truncated has processed them all. With a limit of zero (or less) and a clock that
  is never behind the start time, a batch that is not empty gets exactly its first
  reference processed. And at every reference the loop reaches, whatever the limit: when
  the clock reading taken after it has reached the limit, the run ends there, truncated,
  with the notice printed and none of the remaining references processed; when it has
  not, the run goes on with the remaining references.
\<close>

theorem budget_checked_after_each_item:
  assumes "acquire E base_url start_time time_limit refs w = (Inr truncated, w')"
  shows "(\<exists>k\<le>length refs.
            map Some (calls (trace w')) = map Some (calls (trace w)) @ map (call_of E base_url) (take k refs)
            \<and> (truncated \<longrightarrow> 0 < k \<and> of_int time_limit \<le> clock E (ticks w' - 1) - start_time)
            \<and> (\<not> truncated \<longrightarrow> k = length refs))
         \<and> (time_limit \<le> 0 \<and> (\<forall>n. start_time \<le> clock E n) \<and> refs \<noteq> [] \<longrightarrow>
              truncated
              \<and> map Some (calls (trace w')) = map Some (calls (trace w)) @ [call_of E base_url (hd refs)])
         \<and> (\<forall>xs r ys w1 p w2.
              refs = xs @ r # ys
              \<and> acquire E base_url start_time time_limit xs w = (Inr False, w1)
              \<and> fetch_reference E base_url r w1 = (Inr p, w2)
              \<longrightarrow> (if of_int time_limit \<le> clock E (ticks w2) - start_time
                   then truncated
                        \<and> w' = print_line (''Time limit exceeded ('' @ str_int time_limit
                                             @ ''s). Stopping further downloads.'') (tick w2)
                        \<and> map Some (calls (trace w'))
                            = map Some (calls (trace w)) @ map (call_of E base_url) (xs @ [r])
                   else acquire E base_url start_time time_limit ys (tick w2) = (Inr truncated, w')))"
proof (intro conjI impI allI)
  show "\<exists>k\<le>length refs.
            map Some (calls (trace w')) = map Some (calls (trace w)) @ map (call_of E base_url) (take k refs)
            \<and> (truncated \<longrightarrow> 0 < k \<and> of_int time_limit \<le> clock E (ticks w' - 1) - start_time)
            \<and> (\<not> truncated \<longrightarrow> k = length refs)"
    using assms by (rule acquire_prefix)
next
  assume h: "time_limit \<le> 0 \<and> (\<forall>n. start_time \<le> clock E n) \<and> refs \<noteq> []"
  then obtain r rs where refs: "refs = r # rs" by (cases refs) auto
  have over: "of_int time_limit \<le> clock E n - start_time" for n
  proof -
    have "of_int time_limit \<le> (0::real)" using h by simp
    also have "\<dots> \<le> clock E n - start_time" using h by simp
    finally show ?thesis .
  qed
  from acquire_over_budget [OF assms [unfolded refs] over]
  show "truncated"
    and "map Some (calls (trace w')) = map Some (calls (trace w)) @ [call_of E base_url (hd refs)]"
    by (simp_all add: refs)
next
  fix xs r ys w1 p w2
  assume h: "refs = xs @ r # ys
              \<and> acquire E base_url start_time time_limit xs w = (Inr False, w1)
              \<and> fetch_reference E base_url r w1 = (Inr p, w2)"
  then have refs: "refs = xs @ r # ys"
    and pre: "acquire E base_url start_time time_limit xs w = (Inr False, w1)"
    and f: "fetch_reference E base_url r w1 = (Inr p, w2)" by auto
  note at = acquire_at_item [OF pre f, of ys]
  from fetch_reference_calls [OF f] obtain c where c: "call_of E base_url r = Some c"
    "calls (trace w2) = calls (trace w1) @ [c]" by blast
  show "if of_int time_limit \<le> clock E (ticks w2) - start_time
        then truncated
             \<and> w' = print_line (''Time limit exceeded ('' @ str_int time_limit
                                  @ ''s). Stopping further downloads.'') (tick w2)
             \<and> map Some (calls (trace w'))
                 = map Some (calls (trace w)) @ map (call_of E base_url) (xs @ [r])
        else acquire E base_url start_time time_limit ys (tick w2) = (Inr truncated, w')"
  proof (cases "of_int time_limit \<le> clock E (ticks w2) - start_time")
    case True
    with at assms refs have "truncated"
      and w': "w' = print_line (''Time limit exceeded ('' @ str_int time_limit
                                  @ ''s). Stopping further downloads.'') (tick w2)"
      by simp_all
    moreover have "map Some (calls (trace w'))
        = map Some (calls (trace w)) @ map (call_of E base_url) (xs @ [r])"
      using acquire_calls_all [OF pre] c w' by simp
    ultimately show ?thesis using True by simp
  next
    case False
    with at assms refs show ?thesis by simp
  qed
qed


theorem budget_checked_after_each_item_witness:
  "fst (acquire demo ''http://example.test'' 0 0 (references gallery_soup ''d'') fresh) = Inr True
   \<and> map Some (calls (trace (snd (acquire demo ''http://example.test'' 0 0 (references gallery_soup ''d'') fresh))))
       = [call_of demo ''http://example.test'' (hd (references gallery_soup ''d''))]
   \<and> calls (trace (snd (acquire demo ''http://example.test'' 0 0 (references gallery_soup ''d'') fresh)))
       = [(''http://example.test/img/a.png'', ''a.png'', ''d/images'')]
   \<and> length (references gallery_soup ''d'') = 4
   \<and> fst (acquire demo ''http://example.test'' 0 1 (references gallery_soup ''d'') fresh) = Inr True
   \<and> map Some (calls (trace (snd (acquire demo ''http://example.test'' 0 1 (references gallery_soup ''d'') fresh))))
       = map (call_of demo ''http://example.test'')
           ([(''http://example.test/img/a.png'', ''d/images''), (''http://example.test/s.mp3'', ''d/audio'')]
            @ [(''http://example.test/doc.pdf'', ''d/pdfs'')])
   \<and> calls (trace (snd (acquire demo ''http://example.test'' 0 1 (references gallery_soup ''d'') fresh)))
       = [(''http://example.test/img/a.png'', ''a.png'', ''d/images''),
          (''http://example.test/s.mp3'', ''s.mp3'', ''d/audio''),
          (''http://example.test/doc.pdf'', ''doc.pdf'', ''d/pdfs'')]"
proof -
  let ?refs = "references gallery_soup ''d''"
  let ?b = "''http://example.test''"
  have tf: "trace fresh = []" by (simp add: fresh_def)
  have zero_pre: "(0::int) \<le> 0 \<and> (\<forall>n. (0::real) \<le> clock demo n) \<and> ?refs \<noteq> []"
    by (simp add: demo_references)
  note Z = budget_checked_after_each_item [OF gallery_acquire_truncated, THEN conjunct2, THEN conjunct1,
      rule_format, OF zero_pre, THEN conjunct2]
  have zero: "map Some (calls (trace (snd (acquire demo ?b 0 0 ?refs fresh))))
       = [call_of demo ?b (hd ?refs)]"
    using Z by (simp add: gallery_acquire_truncated tf)
  have split: "?refs = [(''http://example.test/img/a.png'', ''d/images''), (''http://example.test/s.mp3'', ''d/audio'')]
      @ (''http://example.test/doc.pdf'', ''d/pdfs'') # [(''http://example.test/doc.pdf'', ''d/text'')]"
    by (simp add: demo_references path_join_def startswith_def)
  have fired: "of_int 1 \<le> clock demo (ticks \<lparr> files = [''d/images/a.png'' \<mapsto> [CHR 0x01, CHR 0x02, CHR 0x03],
                 ''d/audio/s.mp3'' \<mapsto> ''ID3'',
                 ''d/pdfs/doc.pdf'' \<mapsto> ''%PDF''],
        trace =
          [Called ''http://example.test/img/a.png'' ''a.png'' ''d/images'',
           Get ''http://example.test/img/a.png'',
           Makedirs ''d/images'',
           Wrote ''d/images/a.png'' [CHR 0x01, CHR 0x02, CHR 0x03],
           Called ''http://example.test/s.mp3'' ''s.mp3'' ''d/audio'',
           Get ''http://example.test/s.mp3'',
           Makedirs ''d/audio'',
           Wrote ''d/audio/s.mp3'' ''ID3'',
           Called ''http://example.test/doc.pdf'' ''doc.pdf'' ''d/pdfs'',
           Get ''http://example.test/doc.pdf'',
           Makedirs ''d/pdfs'',
           Wrote ''d/pdfs/doc.pdf'' ''%PDF''],
        ticks = 11 \<rparr>) - 0"
    by simp
  note C = budget_checked_after_each_item [OF gallery_acquire_one_second, THEN conjunct2, THEN conjunct2,
      rule_format, OF conjI [OF split conjI [OF gallery_acquire_two_items gallery_fetch_third]]]
  note D = C [unfolded if_P [OF fired], THEN conjunct2, THEN conjunct2]
  have one: "map Some (calls (trace (snd (acquire demo ?b 0 1 ?refs fresh))))
       = map (call_of demo ?b)
           ([(''http://example.test/img/a.png'', ''d/images''), (''http://example.test/s.mp3'', ''d/audio'')]
            @ [(''http://example.test/doc.pdf'', ''d/pdfs'')])"
    using D by (simp add: gallery_acquire_one_second tf)
  have a: "fst (acquire demo ?b 0 0 ?refs fresh) = Inr True"
    and b: "calls (trace (snd (acquire demo ?b 0 0 ?refs fresh)))
       = [(''http://example.test/img/a.png'', ''a.png'', ''d/images'')]"
    by (simp_all add: gallery_acquire_truncated)
  have c: "length ?refs = 4" by (simp add: demo_references)
  have d: "fst (acquire demo ?b 0 1 ?refs fresh) = Inr True"
    and e: "calls (trace (snd (acquire demo ?b 0 1 ?refs fresh)))
       = [(''http://example.test/img/a.png'', ''a.png'', ''d/images''),
          (''http://example.test/s.mp3'', ''s.mp3'', ''d/audio''),
          (''http://example.test/doc.pdf'', ''doc.pdf'', ''d/pdfs'')]"
    by (simp_all add: gallery_acquire_one_second)
  show ?thesis
    by (intro conjI a zero b c d one e)
qed

text \<open>
  C2 as stated fails: with a time limit of 0 the gallery page's first image is requested
  and saved before the clock is read for the first time, so one outcome is recorded, not
  none.
\<close>

theorem budget_zero_still_fetches_first_item:
  "fst (parse_website demo ''http://example.test/gallery'' 0 fresh) = Inr Truncated
   \<and> calls (trace (snd (parse_website demo ''http://example.test/gallery'' 0 fresh)))
       = [(''http://example.test/img/a.png'', ''a.png'', ''20240102_030405_Gallery/images'')]
   \<and> calls (trace (snd (parse_website demo ''http://example.test/gallery'' 0 fresh))) \<noteq> []
   \<and> requests (trace (snd (parse_website demo ''http://example.test/gallery'' 0 fresh)))
       = [''http://example.test/gallery'', ''http://example.test/img/a.png'']
   \<and> files (snd (parse_website demo ''http://example.test/gallery'' 0 fresh))
        ''20240102_030405_Gallery/images/a.png'' = Some [CHR 0x01, CHR 0x02, CHR 0x03]"
  by (simp add: gallery_run_truncated)

section \<open>The raw page and the rewritten page\<close>

lemma download_file_frame:
  "download_file E u f d w = (r, w') \<Longrightarrow> path \<noteq> path_join d (sanitize_filename f) \<Longrightarrow>
   files w' path = files w path"
  by (auto simp: download_file_def Let_def requests_get_def makedirs_def write_file_def
      split: sum.splits prod.splits if_splits option.splits)

lemma category_file_not_index:
  assumes "c \<in> {''images'', ''audio'', ''pdfs'', ''text'', ''js''}"
  shows "path_join d ''index.html'' \<noteq> path_join (path_join d c) (sanitize_filename f)"
proof -
  let ?n = "sanitize_filename f"
  have n: "\<not> startswith ?n ''/''" by (rule sanitize_not_absolute)
  define d' where "d' = (if d = [] \<or> last d = CHR ''/'' then d else d @ ''/'')"
  have d': "path_join d c = d' @ c" "path_join d ''index.html'' = d' @ ''index.html''"
    using assms by (auto simp: d'_def path_join_def startswith_def)
  have "path_join (d' @ c) ?n = d' @ c @ ''/'' @ ?n"
    using assms n by (auto simp: path_join_def)
  moreover have "''index.html'' \<noteq> c @ ''/'' @ ?n"
    using assms by auto
  ultimately show ?thesis
    using d' by simp
qed

lemma references_subdirs:
  "(v, sub) \<in> set (references soup d) \<Longrightarrow>
   \<exists>c\<in>{''images'', ''audio'', ''pdfs'', ''text'', ''js''}. sub = path_join d c"
  by (auto simp: references_def categories_def tag_references_def split: option.splits)

lemma fetch_reference_keeps_index:
  assumes "fetch_reference E base (v, path_join d c) w = (r, w')"
    and "c \<in> {''images'', ''audio'', ''pdfs'', ''text'', ''js''}"
  shows "files w' (path_join d ''index.html'') = files w (path_join d ''index.html'')"
  using assms(1) category_file_not_index [OF assms(2), of d]
  by (auto simp: fetch_reference_def dest: download_file_frame split: option.splits)

lemma acquire_keeps_index:
  assumes "acquire E base start limit refs w = (r, w')"
    and "\<And>v sub. (v, sub) \<in> set refs \<Longrightarrow>
          \<exists>c\<in>{''images'', ''audio'', ''pdfs'', ''text'', ''js''}. sub = path_join d c"
  shows "files w' (path_join d ''index.html'') = files w (path_join d ''index.html'')"
  using assms
proof (induction refs arbitrary: w)
  case Nil
  then show ?case by simp
next
  case (Cons x xs)
  obtain v sub where x: "x = (v, sub)" by (cases x)
  from Cons.prems(2) [of v sub] x obtain c
    where c: "c \<in> {''images'', ''audio'', ''pdfs'', ''text'', ''js''}" "sub = path_join d c" by auto
  obtain q w1 where f: "fetch_reference E base (v, path_join d c) w = (q, w1)"
    by (cases "fetch_reference E base (v, path_join d c) w")
  note keep = fetch_reference_keeps_index [OF f c(1)]
  show ?case
  proof (cases q)
    case (Inl e)
    with Cons.prems(1) f x c keep show ?thesis by simp
  next
    case (Inr p)
    show ?thesis
    proof (cases "of_int limit \<le> clock E (ticks w1) - start")
      case True
      with Cons.prems(1) f x c Inr keep show ?thesis
        by (auto simp: time_time_def)
    next
      case False
      with Cons.prems(1) f x c Inr have "acquire E base start limit xs (tick w1) = (r, w')"
        by (simp add: time_time_def)
      then have "files w' (path_join d ''index.html'') = files (tick w1) (path_join d ''index.html'')"
      proof (rule Cons.IH)
        fix v' sub'
        assume "(v', sub') \<in> set xs"
        then show "\<exists>c\<in>{''images'', ''audio'', ''pdfs'', ''text'', ''js''}. sub' = path_join d c"
          using Cons.prems(2) [of v' sub'] by simp
      qed
      with keep show ?thesis by simp
    qed
  qed
qed

lemma parse_website_Completed_steps:
  assumes "parse_website E url limit w = (Inr Completed, w')"
  obtains scheme netloc content title w1 w2 w3 w4 w5 w6 w7 where
    "time_time E w = (clock E (ticks w), w1)"
    "urlparse E url = Some (scheme, netloc)"
    "requests_get E url w1 = (Inr content, w2)"
    "page_title (parse_html E content) = Some title"
    "create_directory E title w2 = (Inr (timestamp E @ ''_'' @ sanitize_filename (take 20 title)), w3)"
    "makedirs_all E (map snd (subdirectories (timestamp E @ ''_'' @ sanitize_filename (take 20 title)))) w3
       = (True, w4)"
    "write_file E (path_join (timestamp E @ ''_'' @ sanitize_filename (take 20 title)) ''index.html'') content w4
       = (None, w5)"
    "acquire E (scheme @ ''://'' @ netloc) (clock E (ticks w)) limit
       (references (parse_html E content) (timestamp E @ ''_'' @ sanitize_filename (take 20 title))) w5
       = (Inr False, w6)"
    "modify_html_content E content (timestamp E @ ''_'' @ sanitize_filename (take 20 title))
       (scheme @ ''://'' @ netloc) w6 = (Inr (), w7)"
    "w' = print_line ''Website parsing and download completed.'' w7"
  using assms
  unfolding parse_website_def
  by (auto simp: Let_def time_time_def create_directory_def
      split: prod.splits option.splits sum.splits bool.splits)

lemma modify_html_content_frame:
  "path \<noteq> path_join d ''index.html'' \<Longrightarrow>
   files (snd (modify_html_content E content d b w)) path = files w path"
  by (simp add: modify_html_content_def write_file_def Let_def split: option.splits)

lemma modify_html_content_writes_once:
  "writes (trace (snd (modify_html_content E content d b w))) =
     writes (trace w)
     @ (if fst (modify_html_content E content d b w) = Inr ()
        then [(path_join d ''index.html'', prettify E (rewrite_soup (parse_html E content)))]
        else [])"
  by (simp add: modify_html_content_def write_file_def Let_def split: option.splits)

lemma modify_html_content_requests:
  "requests (trace (snd (modify_html_content E content d b w))) = requests (trace w)"
  by (simp add: modify_html_content_def write_file_def Let_def split: option.splits)

text \<open>
  C7, as the program has it. A run of \<open>parse_website\<close> that completes went through these
  steps, each starting in the world the one before left: the clock reading, the request
  for the page, \<open>create_directory\<close>, the sub-directories, the write of the raw page to
  \<open>index.html\<close> in the run's directory, the acquisition loop, \<open>modify_html_content\<close>,
  the completion notice. In the world \<open>before\<close> that the loop left, the one
  \<open>modify_html_content\<close> starts in, \<open>index.html\<close> still holds the raw page; in the final
  world the files are those of \<open>before\<close> with \<open>index.html\<close> replaced by the serialized
  rewritten page, the writes are those of \<open>before\<close> followed by that one write, and the
  requests are those of \<open>before\<close>. So the rewritten page takes the place of the raw copy,
  which is kept nowhere else.
  For \<open>modify_html_content\<close> on its own, from any world \<open>w0\<close> and whatever it returns:
  every file other than \<open>index.html\<close> in its directory is as it was, it writes once
  when it succeeds and not at all otherwise, and it makes no request.
\<close>

theorem rewritten_page_replaces_raw_copy:
  assumes "parse_website E url time_limit w = (Inr Completed, w')"
  shows "(\<exists>scheme netloc content title (w1 :: world) (w2 :: world) (w3 :: world) (w4 :: world)
           (w5 :: world) (before :: world) (after :: world).
      time_time E w = (clock E (ticks w), w1)
    \<and> urlparse E url = Some (scheme, netloc)
    \<and> requests_get E url w1 = (Inr content, w2)
    \<and> page_title (parse_html E content) = Some title
    \<and> create_directory E title w2 = (Inr (timestamp E @ ''_'' @ sanitize_filename (take 20 title)), w3)
    \<and> makedirs_all E (map snd (subdirectories (timestamp E @ ''_'' @ sanitize_filename (take 20 title)))) w3
        = (True, w4)
    \<and> write_file E (path_join (timestamp E @ ''_'' @ sanitize_filename (take 20 title)) ''index.html'')
          content w4 = (None, w5)
    \<and> acquire E (scheme @ ''://'' @ netloc) (clock E (ticks w)) time_limit
          (references (parse_html E content) (timestamp E @ ''_'' @ sanitize_filename (take 20 title))) w5
        = (Inr False, before)
    \<and> modify_html_content E content (timestamp E @ ''_'' @ sanitize_filename (take 20 title))
          (scheme @ ''://'' @ netloc) before = (Inr (), after)
    \<and> w' = print_line ''Website parsing and download completed.'' after
    \<and> files before (path_join (timestamp E @ ''_'' @ sanitize_filename (take 20 title)) ''index.html'')
        = Some content
    \<and> files w' = (files before)
          (path_join (timestamp E @ ''_'' @ sanitize_filename (take 20 title)) ''index.html''
             \<mapsto> prettify E (rewrite_soup (parse_html E content)))
    \<and> writes (trace w') = writes (trace before)
          @ [(path_join (timestamp E @ ''_'' @ sanitize_filename (take 20 title)) ''index.html'',
              prettify E (rewrite_soup (parse_html E content)))]
    \<and> requests (trace w') = requests (trace before))
   \<and> (\<forall>path. path \<noteq> path_join d0 ''index.html'' \<longrightarrow>
         files (snd (modify_html_content E c0 d0 b0 w0)) path = files w0 path)
   \<and> writes (trace (snd (modify_html_content E c0 d0 b0 w0))) =
        writes (trace w0)
        @ (if fst (modify_html_content E c0 d0 b0 w0) = Inr ()
           then [(path_join d0 ''index.html'', prettify E (rewrite_soup (parse_html E c0)))]
           else [])
   \<and> requests (trace (snd (modify_html_content E c0 d0 b0 w0))) = requests (trace w0)"
proof (intro conjI allI impI)
  from assms obtain scheme netloc content title w1 w2 w3 w4 w5 w6 w7 where
    s1: "time_time E w = (clock E (ticks w), w1)"
    and s2: "urlparse E url = Some (scheme, netloc)"
    and s3: "requests_get E url w1 = (Inr content, w2)"
    and s4: "page_title (parse_html E content) = Some title"
    and s5: "create_directory E title w2 = (Inr (timestamp E @ ''_'' @ sanitize_filename (take 20 title)), w3)"
    and s6: "makedirs_all E (map snd (subdirectories (timestamp E @ ''_'' @ sanitize_filename (take 20 title)))) w3
       = (True, w4)"
    and s7: "write_file E (path_join (timestamp E @ ''_'' @ sanitize_filename (take 20 title)) ''index.html'') content w4
       = (None, w5)"
    and s8: "acquire E (scheme @ ''://'' @ netloc) (clock E (ticks w)) time_limit
       (references (parse_html E content) (timestamp E @ ''_'' @ sanitize_filename (take 20 title))) w5
       = (Inr False, w6)"
    and s9: "modify_html_content E content (timestamp E @ ''_'' @ sanitize_filename (take 20 title))
       (scheme @ ''://'' @ netloc) w6 = (Inr (), w7)"
    and s10: "w' = print_line ''Website parsing and download completed.'' w7"
    by (rule parse_website_Completed_steps)
  let ?d = "timestamp E @ ''_'' @ sanitize_filename (take 20 title)"
  let ?p = "path_join ?d ''index.html''"
  let ?page = "prettify E (rewrite_soup (parse_html E content))"
  have "files w6 ?p = files w5 ?p"
    using s8 by (rule acquire_keeps_index) (rule references_subdirs)
  then have raw: "files w6 ?p = Some content"
    using write_file_effect [OF s7] by simp
  have fs: "files w' = (files w6)(?p \<mapsto> ?page)"
    using modify_html_content_effect(2) [OF s9] s10 by simp
  have ws: "writes (trace w') = writes (trace w6) @ [(?p, ?page)]"
    using modify_html_content_effect(1) [OF s9] s10 by simp
  have rs: "requests (trace w') = requests (trace w6)"
    using modify_html_content_effect(1) [OF s9] s10 by simp
  have all: "time_time E w = (clock E (ticks w), w1)
    \<and> urlparse E url = Some (scheme, netloc)
    \<and> requests_get E url w1 = (Inr content, w2)
    \<and> page_title (parse_html E content) = Some title
    \<and> create_directory E title w2 = (Inr ?d, w3)
    \<and> makedirs_all E (map snd (subdirectories ?d)) w3 = (True, w4)
    \<and> write_file E ?p content w4 = (None, w5)
    \<and> acquire E (scheme @ ''://'' @ netloc) (clock E (ticks w)) time_limit
          (references (parse_html E content) ?d) w5 = (Inr False, w6)
    \<and> modify_html_content E content ?d (scheme @ ''://'' @ netloc) w6 = (Inr (), w7)
    \<and> w' = print_line ''Website parsing and download completed.'' w7
    \<and> files w6 ?p = Some content
    \<and> files w' = (files w6)(?p \<mapsto> ?page)
    \<and> writes (trace w') = writes (trace w6) @ [(?p, ?page)]
    \<and> requests (trace w') = requests (trace w6)"
    using s1 s2 s3 s4 s5 s6 s7 s8 s9 s10 raw fs ws rs by (intro conjI)
  show "\<exists>scheme netloc content title (w1 :: world) (w2 :: world) (w3 :: world) (w4 :: world)
           (w5 :: world) (before :: world) (after :: world).
      time_time E w = (clock E (ticks w), w1)
    \<and> urlparse E url = Some (scheme, netloc)
    \<and> requests_get E url w1 = (Inr content, w2)
    \<and> page_title (parse_html E content) = Some title
    \<and> create_directory E title w2 = (Inr (timestamp E @ ''_'' @ sanitize_filename (take 20 title)), w3)
    \<and> makedirs_all E (map snd (subdirectories (timestamp E @ ''_'' @ sanitize_filename (take 20 title)))) w3
        = (True, w4)
    \<and> write_file E (path_join (timestamp E @ ''_'' @ sanitize_filename (take 20 title)) ''index.html'')
          content w4 = (None, w5)
    \<and> acquire E (scheme @ ''://'' @ netloc) (clock E (ticks w)) time_limit
          (references (parse_html E content) (timestamp E @ ''_'' @ sanitize_filename (take 20 title))) w5
        = (Inr False, before)
    \<and> modify_html_content E content (timestamp E @ ''_'' @ sanitize_filename (take 20 title))
          (scheme @ ''://'' @ netloc) before = (Inr (), after)
    \<and> w' = print_line ''Website parsing and download completed.'' after
    \<and> files before (path_join (timestamp E @ ''_'' @ sanitize_filename (take 20 title)) ''index.html'')
        = Some content
    \<and> files w' = (files before)
          (path_join (timestamp E @ ''_'' @ sanitize_filename (take 20 title)) ''index.html''
             \<mapsto> prettify E (rewrite_soup (parse_html E content)))
    \<and> writes (trace w') = writes (trace before)
          @ [(path_join (timestamp E @ ''_'' @ sanitize_filename (take 20 title)) ''index.html'',
              prettify E (rewrite_soup (parse_html E content)))]
    \<and> requests (trace w') = requests (trace before)"
    apply (rule exI [of _ scheme])
    apply (rule exI [of _ netloc])
    apply (rule exI [of _ content])
    apply (rule exI [of _ title])
    apply (rule exI [of _ w1])
    apply (rule exI [of _ w2])
    apply (rule exI [of _ w3])
    apply (rule exI [of _ w4])
    apply (rule exI [of _ w5])
    apply (rule exI [of _ w6])
    apply (rule exI [of _ w7])
    apply (rule all)
    done
next
  fix path
  assume "path \<noteq> path_join d0 ''index.html''"
  then show "files (snd (modify_html_content E c0 d0 b0 w0)) path = files w0 path"
    by (rule modify_html_content_frame)
next
  show "writes (trace (snd (modify_html_content E c0 d0 b0 w0))) =
        writes (trace w0)
        @ (if fst (modify_html_content E c0 d0 b0 w0) = Inr ()
           then [(path_join d0 ''index.html'', prettify E (rewrite_soup (parse_html E c0)))]
           else [])"
    by (rule modify_html_content_writes_once)
next
  show "requests (trace (snd (modify_html_content E c0 d0 b0 w0))) = requests (trace w0)"
    by (rule modify_html_content_requests)
qed

theorem rewritten_page_replaces_raw_copy_witness:
  "parse_website demo ''http://example.test/'' 4 fresh
     = (Inr Completed, snd (parse_website demo ''http://example.test/'' 4 fresh))
   \<and> (\<exists>scheme netloc content title (w1 :: world) (w2 :: world) (w3 :: world) (w4 :: world)
           (w5 :: world) (before :: world) (after :: world).
      time_time demo fresh = (clock demo (ticks fresh), w1)
    \<and> urlparse demo ''http://example.test/'' = Some (scheme, netloc)
    \<and> requests_get demo ''http://example.test/'' w1 = (Inr content, w2)
    \<and> page_title (parse_html demo content) = Some title
    \<and> create_directory demo title w2
        = (Inr (timestamp demo @ ''_'' @ sanitize_filename (take 20 title)), w3)
    \<and> makedirs_all demo
          (map snd (subdirectories (timestamp demo @ ''_'' @ sanitize_filename (take 20 title)))) w3
        = (True, w4)
    \<and> write_file demo (path_join (timestamp demo @ ''_'' @ sanitize_filename (take 20 title)) ''index.html'')
          content w4 = (None, w5)
    \<and> acquire demo (scheme @ ''://'' @ netloc) (clock demo (ticks fresh)) 4
          (references (parse_html demo content) (timestamp demo @ ''_'' @ sanitize_filename (take 20 title))) w5
        = (Inr False, before)
    \<and> modify_html_content demo content (timestamp demo @ ''_'' @ sanitize_filename (take 20 title))
          (scheme @ ''://'' @ netloc) before = (Inr (), after)
    \<and> snd (parse_website demo ''http://example.test/'' 4 fresh)
        = print_line ''Website parsing and download completed.'' after
    \<and> files before (path_join (timestamp demo @ ''_'' @ sanitize_filename (take 20 title)) ''index.html'')
        = Some content
    \<and> files (snd (parse_website demo ''http://example.test/'' 4 fresh)) = (files before)
          (path_join (timestamp demo @ ''_'' @ sanitize_filename (take 20 title)) ''index.html''
             \<mapsto> prettify demo (rewrite_soup (parse_html demo content)))
    \<and> writes (trace (snd (parse_website demo ''http://example.test/'' 4 fresh))) = writes (trace before)
          @ [(path_join (timestamp demo @ ''_'' @ sanitize_filename (take 20 title)) ''index.html'',
              prettify demo (rewrite_soup (parse_html demo content)))]
    \<and> requests (trace (snd (parse_website demo ''http://example.test/'' 4 fresh)))
        = requests (trace before))
   \<and> files (snd (modify_html_content demo demo_html ''d'' ''http://example.test''
         (fresh \<lparr> files := [''d/images/a.png'' \<mapsto> ''x''] \<rparr>))) ''d/images/a.png'' = Some ''x''
   \<and> writes (trace (snd (modify_html_content demo demo_html ''d'' ''http://example.test''
         (fresh \<lparr> files := [''d/images/a.png'' \<mapsto> ''x''] \<rparr>))))
       = [(''d/index.html'', demo_prettify (rewrite_soup demo_soup))]
   \<and> requests (trace (snd (modify_html_content demo demo_html ''d'' ''http://example.test''
         (fresh \<lparr> files := [''d/images/a.png'' \<mapsto> ''x''] \<rparr>)))) = []
   \<and> writes (trace (snd (parse_website demo ''http://example.test/'' 4 fresh)))
       = [(''20240102_030405_Demo_Page_Title/index.html'', demo_html),
          (''20240102_030405_Demo_Page_Title/index.html'', demo_prettify (rewrite_soup demo_soup))]
   \<and> files (snd (parse_website demo ''http://example.test/'' 4 fresh))
       = [''20240102_030405_Demo_Page_Title/index.html'' \<mapsto> demo_prettify (rewrite_soup demo_soup)]"
proof -
  have run: "parse_website demo ''http://example.test/'' 4 fresh
     = (Inr Completed, snd (parse_website demo ''http://example.test/'' 4 fresh))"
    by (simp add: demo_run)
  note T = rewritten_page_replaces_raw_copy [OF run,
      of "''d''" demo_html "''http://example.test''" "fresh \<lparr> files := [''d/images/a.png'' \<mapsto> ''x''] \<rparr>"]
  have tf: "trace fresh = []" "files fresh = Map.empty"
    by (simp_all add: fresh_def)
  have ne: "''d/images/a.png'' \<noteq> path_join ''d'' ''index.html''"
    by (simp add: path_join_def startswith_def)
  have ok: "fst (modify_html_content demo demo_html ''d'' ''http://example.test''
         (fresh \<lparr> files := [''d/images/a.png'' \<mapsto> ''x''] \<rparr>)) = Inr ()"
    by (simp add: modify_html_content_def write_file_def Let_def)
  have p: "path_join ''d'' ''index.html'' = ''d/index.html''"
    by (simp add: path_join_def startswith_def)
  have a: "files (snd (modify_html_content demo demo_html ''d'' ''http://example.test''
         (fresh \<lparr> files := [''d/images/a.png'' \<mapsto> ''x''] \<rparr>))) ''d/images/a.png'' = Some ''x''"
    using T [THEN conjunct2, THEN conjunct1, rule_format, OF ne] by simp
  have b: "writes (trace (snd (modify_html_content demo demo_html ''d'' ''http://example.test''
         (fresh \<lparr> files := [''d/images/a.png'' \<mapsto> ''x''] \<rparr>))))
       = [(''d/index.html'', demo_prettify (rewrite_soup demo_soup))]"
    using T [THEN conjunct2, THEN conjunct2, THEN conjunct1] by (simp add: ok p tf)
  have c: "requests (trace (snd (modify_html_content demo demo_html ''d'' ''http://example.test''
         (fresh \<lparr> files := [''d/images/a.png'' \<mapsto> ''x''] \<rparr>)))) = []"
    using T [THEN conjunct2, THEN conjunct2, THEN conjunct2] by (simp add: tf)
  have d: "writes (trace (snd (parse_website demo ''http://example.test/'' 4 fresh)))
       = [(''20240102_030405_Demo_Page_Title/index.html'', demo_html),
          (''20240102_030405_Demo_Page_Title/index.html'', demo_prettify (rewrite_soup demo_soup))]"
    by (simp add: demo_run)
  have e: "files (snd (parse_website demo ''http://example.test/'' 4 fresh))
       = [''20240102_030405_Demo_Page_Title/index.html'' \<mapsto> demo_prettify (rewrite_soup demo_soup)]"
    by (simp add: demo_run)
  show ?thesis
    by (intro conjI run T [THEN conjunct1] a b c d e)
qed

text \<open>
  C7 as stated fails at the page \<open>http://example.test/\<close>: both writes of the run go to
  \<open>index.html\<close>, which in the end is the only file and holds the rewritten page, which
  differs from the raw bytes; no file holds the raw bytes.
\<close>

theorem raw_page_overwritten:
  "fst (parse_website demo ''http://example.test/'' 4 fresh) = Inr Completed
   \<and> writes (trace (snd (parse_website demo ''http://example.test/'' 4 fresh)))
       = [(''20240102_030405_Demo_Page_Title/index.html'', demo_html),
          (''20240102_030405_Demo_Page_Title/index.html'', demo_prettify (rewrite_soup demo_soup))]
   \<and> files (snd (parse_website demo ''http://example.test/'' 4 fresh))
       = [''20240102_030405_Demo_Page_Title/index.html'' \<mapsto> demo_prettify (rewrite_soup demo_soup)]
   \<and> demo_prettify (rewrite_soup demo_soup) \<noteq> demo_html
   \<and> files (snd (parse_website demo ''http://example.test/'' 4 fresh))
        ''20240102_030405_Demo_Page_Title/index.html'' \<noteq> Some demo_html"
  using demo_prettified_differs by (simp add: demo_run)

section \<open>Links are fetched twice\<close>

lemma gallery_acquire:
  "acquire demo ''http://example.test'' 0 4 (references gallery_soup ''d'') fresh =
     (Inr False,
      \<lparr> files = [''d/images/a.png'' \<mapsto> [CHR 0x01, CHR 0x02, CHR 0x03],
                 ''d/audio/s.mp3'' \<mapsto> ''ID3'',
                 ''d/pdfs/doc.pdf'' \<mapsto> ''%PDF'',
                 ''d/text/doc.pdf'' \<mapsto> ''%PDF''],
        trace =
          [Called ''http://example.test/img/a.png'' ''a.png'' ''d/images'',
           Get ''http://example.test/img/a.png'',
           Makedirs ''d/images'',
           Wrote ''d/images/a.png'' [CHR 0x01, CHR 0x02, CHR 0x03],
           Called ''http://example.test/s.mp3'' ''s.mp3'' ''d/audio'',
           Get ''http://example.test/s.mp3'',
           Makedirs ''d/audio'',
           Wrote ''d/audio/s.mp3'' ''ID3'',
           Called ''http://example.test/doc.pdf'' ''doc.pdf'' ''d/pdfs'',
           Get ''http://example.test/doc.pdf'',
           Makedirs ''d/pdfs'',
           Wrote ''d/pdfs/doc.pdf'' ''%PDF'',
           Called ''http://example.test/doc.pdf'' ''doc.pdf'' ''d/text'',
           Get ''http://example.test/doc.pdf'',
           Makedirs ''d/text'',
           Wrote ''d/text/doc.pdf'' ''%PDF''],
        ticks = 16 \<rparr>)"
  by (simp add: run_defs)

lemma gallery_link:
  "Element ''a'' [(''href'', ''http://example.test/doc.pdf'')] [Text ''doc'']
     \<in> set (find_all ''a'' gallery_soup)"
  by (simp add: find_all_def gallery_soup_def)

lemma download_file_ok:
  assumes "download_file E u f d w = (Inr p, w')"
    and "urlparse E u = Some (scheme, netloc)" and "scheme \<noteq> []" and "netloc \<noteq> []"
    and "\<And>n. http_get E n u = Inr body"
    and "\<And>n. write_fails E n (path_join d (sanitize_filename f)) = None"
  shows "p = abspath E (path_join d (sanitize_filename f))"
    and "trace w' = trace w @ [Called u f d, Get u,
           Makedirs (dirname (path_join d (sanitize_filename f))),
           Wrote (path_join d (sanitize_filename f)) body]"
    and "files w' = (files w)(path_join d (sanitize_filename f) \<mapsto> body)"
  using assms
  by (auto simp: download_file_def is_valid_url_def Let_def requests_get_def makedirs_def write_file_def
      emit_def tick_def split: if_splits)

lemma acquire_split:
  assumes "acquire E base start limit (xs @ r # zs) w = (Inr False, w')"
  obtains wa p wa' where "acquire E base start limit xs w = (Inr False, wa)"
    and "fetch_reference E base r wa = (Inr p, wa')"
    and "acquire E base start limit zs (tick wa') = (Inr False, w')"
proof -
  from acquire_append [OF assms] obtain wa
    where a: "acquire E base start limit xs w = (Inr False, wa)"
      and b: "acquire E base start limit (r # zs) wa = (Inr False, w')" by blast
  from b obtain p wa' where "fetch_reference E base r wa = (Inr p, wa')"
    and "acquire E base start limit zs (tick wa') = (Inr False, w')"
    by (rule acquire_step)
  with a show thesis by (rule that)
qed

lemma download_file_dom:
  "download_file E u f d w = (r, w') \<Longrightarrow> dom (files w) \<subseteq> dom (files w')"
  by (auto simp: download_file_def Let_def requests_get_def makedirs_def write_file_def
      emit_def tick_def print_line_def split: sum.splits prod.splits if_splits option.splits)

lemma fetch_reference_dom:
  "fetch_reference E base r w = (q, w') \<Longrightarrow> dom (files w) \<subseteq> dom (files w')"
  by (cases r) (auto simp: fetch_reference_def dest: download_file_dom split: option.splits)

lemma acquire_dom:
  "acquire E base start limit refs w = (q, w') \<Longrightarrow> dom (files w) \<subseteq> dom (files w')"
proof (induction refs arbitrary: w)
  case Nil
  then show ?case by simp
next
  case (Cons r rs)
  obtain q1 w1 where f: "fetch_reference E base r w = (q1, w1)"
    by (cases "fetch_reference E base r w")
  note d1 = fetch_reference_dom [OF f]
  show ?case
  proof (cases q1)
    case (Inl e)
    with Cons.prems f d1 show ?thesis by simp
  next
    case (Inr p)
    show ?thesis
    proof (cases "of_int limit \<le> clock E (ticks w1) - start")
      case True
      with Cons.prems f Inr d1 show ?thesis
        by (auto simp: time_time_def print_line_def emit_def tick_def)
    next
      case False
      with Cons.prems f Inr have "acquire E base start limit rs (tick w1) = (q, w')"
        by (simp add: time_time_def)
      from Cons.IH [OF this] d1 show ?thesis
        by (auto simp: tick_def)
    qed
  qed
qed




section \<open>URLs that are not valid\<close>

text \<open>
  Where \<open>urlparse\<close> returns and finds no scheme or no network location,
  \<open>download_file\<close> returns the empty string after printing the skip notice, and nothing
  else happens: no request is issued (the trace gains no \<open>Get\<close>, and the count of
  interactions with the surroundings stays what it was) and no file changes.
\<close>

lemma invalid_url_skipped_without_request:
  assumes "urlparse E url = Some (scheme, netloc)" and "scheme = [] \<or> netloc = []"
  shows "download_file E url filename directory w =
           (Inr [], print_line (''Skipping invalid URL: '' @ url)
                      (emit (Called url filename directory) w))
         \<and> requests (trace (snd (download_file E url filename directory w))) = requests (trace w)
         \<and> ticks (snd (download_file E url filename directory w)) = ticks w
         \<and> files (snd (download_file E url filename directory w)) = files w"
  using assms by (auto simp: download_file_def is_valid_url_def Let_def)

text \<open>Where \<open>urlparse\<close> raises, so does \<open>download_file\<close>, before anything is printed.\<close>

lemma unparsable_url_raises:
  assumes "urlparse E url = None"
  shows "download_file E url filename directory w
           = (Inl ValueError, emit (Called url filename directory) w)"
  using assms by (simp add: download_file_def is_valid_url_def Let_def)

lemma raise_ends_acquire:
  assumes "fetch_reference E base r w = (Inl e, w1)"
  shows "acquire E base start limit (r # rs) w = (Inl e, w1)"
  using assms by simp

text \<open>
  C8, at the URL \<open>//[::1/x.png\<close>. It has no scheme; its network location \<open>[::1\<close> opens
  a bracket that it does not close, on which \<open>urlparse\<close> raises \<open>ValueError\<close>.
  \<open>is_valid_url\<close> catches nothing, so it raises where the claim (and its own
  documentation, \<^emph>\<open>True if the URL is valid, False otherwise\<close>) has it return
  \<open>False\<close>; \<open>download_file\<close> raises in turn instead of printing the skip notice and
  returning the empty string, and the loop that called it ends with the exception: a
  reference that follows is never visited. No request is issued.
  The empty string and \<open>not a url\<close>, on which \<open>urlparse\<close> returns, are skipped as the
  claim says.
\<close>

theorem unclosed_bracket_raises_instead_of_skip:
  "demo_urlparse ''//[::1/x.png'' = None
   \<and> is_valid_url demo ''//[::1/x.png'' = Inl ValueError
   \<and> download_file demo ''//[::1/x.png'' ''x.png'' ''d/images'' fresh =
       (Inl ValueError,
        \<lparr> files = Map.empty, trace = [Called ''//[::1/x.png'' ''x.png'' ''d/images''], ticks = 0 \<rparr>)
   \<and> acquire demo ''http://example.test'' 0 4
        [(''//[::1/x.png'', ''d/images''), (''http://example.test/img/a.png'', ''d/images'')] fresh =
       (Inl ValueError,
        \<lparr> files = Map.empty, trace = [Called ''//[::1/x.png'' ''x.png'' ''d/images''], ticks = 0 \<rparr>)
   \<and> download_file demo '''' '''' ''d/images'' fresh =
       (Inr [], \<lparr> files = Map.empty,
                  trace = [Called '''' '''' ''d/images'', Print ''Skipping invalid URL: ''],
                  ticks = 0 \<rparr>)
   \<and> download_file demo ''not a url'' ''not a url'' ''d/images'' fresh =
       (Inr [], \<lparr> files = Map.empty,
                  trace = [Called ''not a url'' ''not a url'' ''d/images'',
                           Print ''Skipping invalid URL: not a url''],
                  ticks = 0 \<rparr>)"
proof -
  have p: "demo_urlparse ''//[::1/x.png'' = None"
    by (simp add: demo_urlparse_def startswith_def ascii_letters_def digits_def)
  have v: "is_valid_url demo ''//[::1/x.png'' = Inl ValueError"
    by (simp add: is_valid_url_def p)
  have d: "download_file demo ''//[::1/x.png'' ''x.png'' ''d/images'' fresh =
       (Inl ValueError,
        \<lparr> files = Map.empty, trace = [Called ''//[::1/x.png'' ''x.png'' ''d/images''], ticks = 0 \<rparr>)"
    by (simp add: download_file_def v Let_def emit_def fresh_def)
  have f: "fetch_reference demo ''http://example.test'' (''//[::1/x.png'', ''d/images'') fresh =
       (Inl ValueError,
        \<lparr> files = Map.empty, trace = [Called ''//[::1/x.png'' ''x.png'' ''d/images''], ticks = 0 \<rparr>)"
    by (simp add: fetch_reference_def resolve_def startswith_def basename_def d)
  have a: "acquire demo ''http://example.test'' 0 4
        [(''//[::1/x.png'', ''d/images''), (''http://example.test/img/a.png'', ''d/images'')] fresh =
       (Inl ValueError,
        \<lparr> files = Map.empty, trace = [Called ''//[::1/x.png'' ''x.png'' ''d/images''], ticks = 0 \<rparr>)"
    using f by (rule raise_ends_acquire)
  have e: "download_file demo '''' '''' ''d/images'' fresh =
       (Inr [], \<lparr> files = Map.empty,
                  trace = [Called '''' '''' ''d/images'', Print ''Skipping invalid URL: ''],
                  ticks = 0 \<rparr>)"
    by (simp add: download_file_def is_valid_url_def demo_urlparse_values Let_def emit_def
        print_line_def fresh_def)
  have n: "download_file demo ''not a url'' ''not a url'' ''d/images'' fresh =
       (Inr [], \<lparr> files = Map.empty,
                  trace = [Called ''not a url'' ''not a url'' ''d/images'',
                           Print ''Skipping invalid URL: not a url''],
                  ticks = 0 \<rparr>)"
    by (simp add: download_file_def is_valid_url_def demo_urlparse_values Let_def emit_def
        print_line_def fresh_def)
  show ?thesis
    by (intro conjI p v d a e n)
qed

section \<open>Style sheets\<close>

text \<open>
  C6, at the gallery page, whose head holds
  \<open><link rel="stylesheet" href="http://example.test/s.css">\<close>. The run completes; it
  has created the directory \<open>css\<close>, and the persisted page has the style sheet's \<open>href\<close>
  rewritten to \<open>css/http___example.test_s.css\<close>. But the loop has called
  \<open>download_file\<close> four times, for the image, the audio file and twice for the link,
  never for the style sheet: its URL is not requested and no file exists at the path
  the page now names, nor anywhere under \<open>css\<close>. The rewriter has emitted a local path
  for a reference the loop never attempted, in a category the loop does not process.
\<close>

theorem stylesheet_rewritten_but_never_fetched:
  "fst (parse_website demo ''http://example.test/gallery'' 4 fresh) = Inr Completed
   \<and> files (snd (parse_website demo ''http://example.test/gallery'' 4 fresh))
        ''20240102_030405_Gallery/index.html'' = Some (demo_prettify (rewrite_soup gallery_soup))
   \<and> map attrs_of (find_all ''link'' gallery_soup)
       = [[(''rel'', ''stylesheet''), (''href'', ''http://example.test/s.css'')]]
   \<and> map attrs_of (find_all ''link'' (rewrite_soup gallery_soup))
       = [[(''rel'', ''stylesheet''), (''href'', ''css/http___example.test_s.css'')]]
   \<and> Makedirs ''20240102_030405_Gallery/css''
        \<in> set (trace (snd (parse_website demo ''http://example.test/gallery'' 4 fresh)))
   \<and> calls (trace (snd (parse_website demo ''http://example.test/gallery'' 4 fresh)))
       = [(''http://example.test/img/a.png'', ''a.png'', ''20240102_030405_Gallery/images''),
          (''http://example.test/s.mp3'', ''s.mp3'', ''20240102_030405_Gallery/audio''),
          (''http://example.test/doc.pdf'', ''doc.pdf'', ''20240102_030405_Gallery/pdfs''),
          (''http://example.test/doc.pdf'', ''doc.pdf'', ''20240102_030405_Gallery/text'')]
   \<and> ''http://example.test/s.css''
        \<notin> set (requests (trace (snd (parse_website demo ''http://example.test/gallery'' 4 fresh))))
   \<and> files (snd (parse_website demo ''http://example.test/gallery'' 4 fresh))
        ''20240102_030405_Gallery/css/http___example.test_s.css'' = None
   \<and> dom (files (snd (parse_website demo ''http://example.test/gallery'' 4 fresh)))
       = {''20240102_030405_Gallery/index.html'', ''20240102_030405_Gallery/text/doc.pdf'',
          ''20240102_030405_Gallery/pdfs/doc.pdf'', ''20240102_030405_Gallery/audio/s.mp3'',
          ''20240102_030405_Gallery/images/a.png''}"
proof -
  have a: "map attrs_of (find_all ''link'' gallery_soup)
       = [[(''rel'', ''stylesheet''), (''href'', ''http://example.test/s.css'')]]"
    by (simp add: find_all_def gallery_soup_def)
  have b: "map attrs_of (find_all ''link'' (rewrite_soup gallery_soup))
       = [[(''rel'', ''stylesheet''), (''href'', ''css/http___example.test_s.css'')]]"
    by (simp add: gallery_rewritten find_all_def)
  have c: "dom (files (snd (parse_website demo ''http://example.test/gallery'' 4 fresh)))
       = {''20240102_030405_Gallery/index.html'', ''20240102_030405_Gallery/text/doc.pdf'',
          ''20240102_030405_Gallery/pdfs/doc.pdf'', ''20240102_030405_Gallery/audio/s.mp3'',
          ''20240102_030405_Gallery/images/a.png''}"
    by (simp add: gallery_run)
  show ?thesis
    by (simp add: gallery_run a b c)
qed

end
